theory Spec2Isabelle
  imports Complex_Main
begin

section \<open>Conventions\<close>

text \<open>
  The development embeds \<^verbatim>\<open>adaptation.cpp\<close>, \<^verbatim>\<open>adaptation.h\<close> and
  \<^verbatim>\<open>base_body_relation.cpp\<close>.

  \<^item> \<^verbatim>\<open>Real\<close> (a C++ \<^verbatim>\<open>double\<close>) is modelled by the mathematical reals. The fields of a
    policy are computed without rounding. In the two volume tests of the split/merge
    policy, where a difference is compared with the tolerance \<^verbatim>\<open>Eps\<close> and the last bit
    decides, every literal and every operation is rounded to the nearest double
    (\<open>fl64\<close> below). IEEE division by zero gives an infinity or a NaN where HOL gives \<open>0\<close>;
    no theorem below relies on the value of a division by zero.
  \<^item> \<^verbatim>\<open>int\<close> is modelled by the unbounded integers; the conversion \<^verbatim>\<open>int(x)\<close> of a
    \<^verbatim>\<open>Real\<close> truncates towards zero. \<^verbatim>\<open>size_t\<close> is modelled by the naturals.
  \<^item> \<^verbatim>\<open>Dimensions\<close> is a compile-time constant of the build (2 or 3), which also selects
    the overload of \<^verbatim>\<open>computeReferenceNumberDensity\<close> through the type \<^verbatim>\<open>Vecd\<close>.
  \<^item> The kernel classes are outside these sources. A kernel is a record of the member
    functions the code calls, and the constructor of \<^verbatim>\<open>KernelWendlandC2\<close> is a parameter
    \<open>mk\<close> of every operation that builds a kernel; it is taken to return.
\<close>

section \<open>Vectors, kernels and scalar helpers\<close>

type_synonym Vec2d = "real \<times> real"
type_synonym Vec3d = "real \<times> real \<times> real"

fun norm_2d :: "Vec2d \<Rightarrow> real" where
  "norm_2d (x, y) = sqrt (x * x + y * y)"

fun norm_3d :: "Vec3d \<Rightarrow> real" where
  "norm_3d (x, y, z) = sqrt (x * x + y * y + z * z)"

record Kernel =
  W_2d :: "real \<Rightarrow> Vec2d \<Rightarrow> real"
  W_3d :: "real \<Rightarrow> Vec3d \<Rightarrow> real"
  W_1D :: "real \<Rightarrow> real"
  CutOffRadius :: real
  KernelSize :: real

datatype dimension = TwoD | ThreeD

fun Dimensions :: "dimension \<Rightarrow> int" where
  "Dimensions TwoD = 2"
| "Dimensions ThreeD = 3"

text \<open>
  Modelled from the spec: \<^verbatim>\<open>powerN(a, n)\<close> is declared outside these sources. The spec
  reads \<^verbatim>\<open>powerN(2.0, level)\<close> as \<open>2^level\<close> and \<^verbatim>\<open>powerN(spacing, Dimensions)\<close> as
  \<open>spacing^Dimensions\<close>, for a non-negative exponent.
\<close>

definition powerN :: "real \<Rightarrow> int \<Rightarrow> real" where
  "powerN a n = a ^ nat n"

text \<open>The conversion \<^verbatim>\<open>int(x)\<close> of a \<^verbatim>\<open>Real\<close>: truncation towards zero.\<close>

definition int_of_Real :: "real \<Rightarrow> int" where
  "int_of_Real x = (if 0 \<le> x then \<lfloor>x\<rfloor> else \<lceil>x\<rceil>)"

text \<open>
  Rounding to \<^verbatim>\<open>double\<close> (IEEE 754 binary64, round to nearest, ties to even): a non-zero
  \<open>x\<close> with \<open>2\<^sup>e \<le> |x| < 2\<^sup>e\<^sup>+\<^sup>1\<close> becomes the nearest multiple of \<open>2\<^sup>e\<^sup>-\<^sup>5\<^sup>2\<close>, the even multiple
  when two are equally near. The exponent range is unbounded here: overflow to an infinity
  and the subnormal numbers (magnitudes beyond \<open>10\<^sup>3\<^sup>0\<^sup>8\<close> or below \<open>10\<^sup>-\<^sup>3\<^sup>0\<^sup>7\<close>) are not modelled.
\<close>

definition round_half_even :: "real \<Rightarrow> int" where
  "round_half_even m =
     (let f = \<lfloor>m\<rfloor>
      in if m - of_int f < 1 / 2 then f
         else if 1 / 2 < m - of_int f then f + 1
         else if even f then f else f + 1)"

definition fl64 :: "real \<Rightarrow> real" where
  "fl64 x =
     (if x = 0 then 0
      else (let e = \<lfloor>log 2 \<bar>x\<bar>\<rfloor>; u = power_int 2 (e - 52)
            in of_int (round_half_even (x / u)) * u))"

section \<open>The base adaptation\<close>

record SPHAdaptation =
  h_spacing_ratio :: real
  system_refinement_ratio :: real
  local_refinement_level :: int
  spacing_ref :: real
  h_ref :: real
  kernel_ptr :: Kernel
  sigma0_ref :: real
  spacing_min :: real
  h_ratio_max :: real

definition SPHAdaptation_MostRefinedSpacing :: "real \<Rightarrow> int \<Rightarrow> real" where
  "SPHAdaptation_MostRefinedSpacing coarse_particle_spacing refinement_level =
     coarse_particle_spacing / powerN 2 refinement_level"

definition MinimumSmoothingLength :: "'a SPHAdaptation_scheme \<Rightarrow> real" where
  "MinimumSmoothingLength a = h_ref a / h_ratio_max a"

subsection \<open>The reference number density\<close>

text \<open>The body of the innermost loop: one lattice point, added when strictly inside the cutoff.\<close>

definition add_point_2d :: "Kernel \<Rightarrow> real \<Rightarrow> real \<Rightarrow> int \<Rightarrow> int \<Rightarrow> real \<Rightarrow> real" where
  "add_point_2d K cutoff_radius particle_spacing j i sigma =
     (let particle_location = (real_of_int i * particle_spacing, real_of_int j * particle_spacing);
          distance = norm_2d particle_location
      in if distance < cutoff_radius then sigma + W_2d K distance particle_location else sigma)"

function loop_i_2d :: "Kernel \<Rightarrow> real \<Rightarrow> real \<Rightarrow> int \<Rightarrow> int \<Rightarrow> int \<Rightarrow> real \<Rightarrow> real" where
  "loop_i_2d K cutoff_radius particle_spacing search_depth j i sigma =
     (if i \<le> search_depth
      then loop_i_2d K cutoff_radius particle_spacing search_depth j (i + 1)
             (add_point_2d K cutoff_radius particle_spacing j i sigma)
      else sigma)"
  by pat_completeness auto
termination
  by (relation "measure (\<lambda>(K, c, s, d, j, i, sigma). nat (d + 1 - i))") auto

function loop_j_2d :: "Kernel \<Rightarrow> real \<Rightarrow> real \<Rightarrow> int \<Rightarrow> int \<Rightarrow> real \<Rightarrow> real" where
  "loop_j_2d K cutoff_radius particle_spacing search_depth j sigma =
     (if j \<le> search_depth
      then loop_j_2d K cutoff_radius particle_spacing search_depth (j + 1)
             (loop_i_2d K cutoff_radius particle_spacing search_depth j (- search_depth) sigma)
      else sigma)"
  by pat_completeness auto
termination
  by (relation "measure (\<lambda>(K, c, s, d, j, sigma). nat (d + 1 - j))") auto

definition computeReferenceNumberDensity_2d :: "Kernel \<Rightarrow> real \<Rightarrow> real" where
  "computeReferenceNumberDensity_2d K spacing =
     (let cutoff_radius = CutOffRadius K;
          particle_spacing = spacing;
          search_depth = int_of_Real (cutoff_radius / particle_spacing) + 1
      in loop_j_2d K cutoff_radius particle_spacing search_depth (- search_depth) 0)"

definition add_point_3d :: "Kernel \<Rightarrow> real \<Rightarrow> real \<Rightarrow> int \<Rightarrow> int \<Rightarrow> int \<Rightarrow> real \<Rightarrow> real" where
  "add_point_3d K cutoff_radius particle_spacing k j i sigma =
     (let particle_location = (real_of_int i * particle_spacing,
                               real_of_int j * particle_spacing, real_of_int k * particle_spacing);
          distance = norm_3d particle_location
      in if distance < cutoff_radius then sigma + W_3d K distance particle_location else sigma)"

function loop_i_3d :: "Kernel \<Rightarrow> real \<Rightarrow> real \<Rightarrow> int \<Rightarrow> int \<Rightarrow> int \<Rightarrow> int \<Rightarrow> real \<Rightarrow> real" where
  "loop_i_3d K cutoff_radius particle_spacing search_depth k j i sigma =
     (if i \<le> search_depth
      then loop_i_3d K cutoff_radius particle_spacing search_depth k j (i + 1)
             (add_point_3d K cutoff_radius particle_spacing k j i sigma)
      else sigma)"
  by pat_completeness auto
termination
  by (relation "measure (\<lambda>(K, c, s, d, k, j, i, sigma). nat (d + 1 - i))") auto

function loop_j_3d :: "Kernel \<Rightarrow> real \<Rightarrow> real \<Rightarrow> int \<Rightarrow> int \<Rightarrow> int \<Rightarrow> real \<Rightarrow> real" where
  "loop_j_3d K cutoff_radius particle_spacing search_depth k j sigma =
     (if j \<le> search_depth
      then loop_j_3d K cutoff_radius particle_spacing search_depth k (j + 1)
             (loop_i_3d K cutoff_radius particle_spacing search_depth k j (- search_depth) sigma)
      else sigma)"
  by pat_completeness auto
termination
  by (relation "measure (\<lambda>(K, c, s, d, k, j, sigma). nat (d + 1 - j))") auto

function loop_k_3d :: "Kernel \<Rightarrow> real \<Rightarrow> real \<Rightarrow> int \<Rightarrow> int \<Rightarrow> real \<Rightarrow> real" where
  "loop_k_3d K cutoff_radius particle_spacing search_depth k sigma =
     (if k \<le> search_depth
      then loop_k_3d K cutoff_radius particle_spacing search_depth (k + 1)
             (loop_j_3d K cutoff_radius particle_spacing search_depth k (- search_depth) sigma)
      else sigma)"
  by pat_completeness auto
termination
  by (relation "measure (\<lambda>(K, c, s, d, k, sigma). nat (d + 1 - k))") auto

definition computeReferenceNumberDensity_3d :: "Kernel \<Rightarrow> real \<Rightarrow> real" where
  "computeReferenceNumberDensity_3d K spacing =
     (let cutoff_radius = CutOffRadius K;
          particle_spacing = spacing;
          search_depth = int_of_Real (cutoff_radius / particle_spacing) + 1
      in loop_k_3d K cutoff_radius particle_spacing search_depth (- search_depth) 0)"

declare loop_i_2d.simps [simp del] loop_j_2d.simps [simp del]
  loop_i_3d.simps [simp del] loop_j_3d.simps [simp del] loop_k_3d.simps [simp del]

text \<open>\<^verbatim>\<open>computeReferenceNumberDensity(Vecd(0))\<close>: the overload is chosen by the build.\<close>

fun computeReferenceNumberDensity :: "dimension \<Rightarrow> Kernel \<Rightarrow> real \<Rightarrow> real" where
  "computeReferenceNumberDensity TwoD K spacing = computeReferenceNumberDensity_2d K spacing"
| "computeReferenceNumberDensity ThreeD K spacing = computeReferenceNumberDensity_3d K spacing"

subsection \<open>Construction and reset\<close>

text \<open>
  The member initialisers run in declaration order, which is the order written; the
  virtual call \<^verbatim>\<open>this->MostRefinedSpacing\<close> inside the base constructor is the base version.
\<close>

definition SPHAdaptation_ctor ::
  "(real \<Rightarrow> Kernel) \<Rightarrow> dimension \<Rightarrow> real \<Rightarrow> real \<Rightarrow> real \<Rightarrow> SPHAdaptation" where
  "SPHAdaptation_ctor mk dims resolution_ref h_spacing_ratio' system_refinement_ratio' =
     (let lrl = 0;
          sref = resolution_ref / system_refinement_ratio';
          href = h_spacing_ratio' * sref;
          kern = mk href
      in \<lparr> h_spacing_ratio = h_spacing_ratio',
           system_refinement_ratio = system_refinement_ratio',
           local_refinement_level = lrl,
           spacing_ref = sref,
           h_ref = href,
           kernel_ptr = kern,
           sigma0_ref = computeReferenceNumberDensity dims kern sref,
           spacing_min = SPHAdaptation_MostRefinedSpacing sref lrl,
           h_ratio_max = powerN 2 lrl \<rparr>)"

text \<open>
  \<^verbatim>\<open>SPHAdaptation::resetAdaptationRatios\<close>. The call of \<^verbatim>\<open>MostRefinedSpacing\<close> is virtual:
  \<open>mrs\<close> is the override of the object's class.
\<close>

definition SPHAdaptation_resetAdaptationRatios ::
  "(real \<Rightarrow> Kernel) \<Rightarrow> dimension \<Rightarrow> (real \<Rightarrow> int \<Rightarrow> real) \<Rightarrow>
   'a SPHAdaptation_scheme \<Rightarrow> real \<Rightarrow> real \<Rightarrow> 'a SPHAdaptation_scheme" where
  "SPHAdaptation_resetAdaptationRatios mk dims mrs a h_spacing_ratio' new_system_refinement_ratio =
     (let a1 = a\<lparr>h_spacing_ratio := h_spacing_ratio'\<rparr>;
          a2 = a1\<lparr>spacing_ref := spacing_ref a1 * system_refinement_ratio a1 / new_system_refinement_ratio\<rparr>;
          a3 = a2\<lparr>system_refinement_ratio := new_system_refinement_ratio\<rparr>;
          a4 = a3\<lparr>h_ref := h_spacing_ratio a3 * spacing_ref a3\<rparr>;
          a5 = a4\<lparr>kernel_ptr := mk (h_ref a4)\<rparr>;
          a6 = a5\<lparr>sigma0_ref := computeReferenceNumberDensity dims (kernel_ptr a5) (spacing_ref a5)\<rparr>;
          a7 = a6\<lparr>spacing_min := mrs (spacing_ref a6) (local_refinement_level a6)\<rparr>
      in a7\<lparr>h_ratio_max := h_ref a7 * spacing_ref a7 / spacing_min a7\<rparr>)"

text \<open>
  \<^verbatim>\<open>resetKernel<KernelType>(args...)\<close>: \<open>mk'\<close> is the constructor of the kernel type with its
  further arguments.
\<close>

definition resetKernel ::
  "(real \<Rightarrow> Kernel) \<Rightarrow> dimension \<Rightarrow> 'a SPHAdaptation_scheme \<Rightarrow> 'a SPHAdaptation_scheme" where
  "resetKernel mk' dims a =
     (let a1 = a\<lparr>kernel_ptr := mk' (h_ref a)\<rparr>
      in a1\<lparr>sigma0_ref := computeReferenceNumberDensity dims (kernel_ptr a1) (spacing_ref a1)\<rparr>)"

section \<open>Local refinement\<close>

text \<open>
  A body supplies the reference resolution of its system
  (\<^verbatim>\<open>sph_body.getSPHSystem().resolution_ref_\<close>).
\<close>

record SPHSystem =
  resolution_ref :: real

record SPHBody =
  getSPHSystem :: SPHSystem

definition SPHAdaptation_ctor_body ::
  "(real \<Rightarrow> Kernel) \<Rightarrow> dimension \<Rightarrow> SPHBody \<Rightarrow> real \<Rightarrow> real \<Rightarrow> SPHAdaptation" where
  "SPHAdaptation_ctor_body mk dims sph_body h_spacing_ratio' system_refinement_ratio' =
     SPHAdaptation_ctor mk dims (resolution_ref (getSPHSystem sph_body))
       h_spacing_ratio' system_refinement_ratio'"

record ParticleWithLocalRefinement = SPHAdaptation +
  h_ratio :: "real list"

text \<open>
  \<^verbatim>\<open>ParticleWithLocalRefinement\<close> does not override \<^verbatim>\<open>MostRefinedSpacing\<close>, and while its
  constructor body runs the object is of this class: the call is the base version.
\<close>

definition ParticleWithLocalRefinement_ctor ::
  "(real \<Rightarrow> Kernel) \<Rightarrow> dimension \<Rightarrow> SPHBody \<Rightarrow> real \<Rightarrow> real \<Rightarrow> int \<Rightarrow> ParticleWithLocalRefinement" where
  "ParticleWithLocalRefinement_ctor mk dims sph_body h_spacing_ratio' system_refinement_ratio'
       local_refinement_level' =
     (let a0 = SPHAdaptation.extend
                 (SPHAdaptation_ctor_body mk dims sph_body h_spacing_ratio' system_refinement_ratio')
                 (ParticleWithLocalRefinement.fields []);
          a1 = a0\<lparr>local_refinement_level := local_refinement_level'\<rparr>;
          a2 = a1\<lparr>spacing_min :=
                    SPHAdaptation_MostRefinedSpacing (spacing_ref a1) (local_refinement_level a1)\<rparr>
      in a2\<lparr>h_ratio_max := powerN 2 (local_refinement_level a2)\<rparr>)"

text \<open>
  \<^verbatim>\<open>registerSmoothingLengthRatio\<close> hands \<^verbatim>\<open>h_ratio_\<close> to the particle store, which allocates
  it with the default \<open>1.0\<close> for each of its \<open>n\<close> particles. Modelled from the spec:
  \<^verbatim>\<open>registerVariable\<close> is outside these sources. The member is public and the function
  returns a reference to it: callers may then write any values.
\<close>

definition registerSmoothingLengthRatio ::
  "nat \<Rightarrow> 'a ParticleWithLocalRefinement_scheme \<Rightarrow> 'a ParticleWithLocalRefinement_scheme" where
  "registerSmoothingLengthRatio n a = a\<lparr>h_ratio := replicate n 1\<rparr>"

section \<open>Refinement by shape\<close>

text \<open>The target shape is represented by its signed-distance query.\<close>

record 'pos ParticleRefinementByShape = ParticleWithLocalRefinement +
  target_shape :: "'pos \<Rightarrow> real"

definition ParticleRefinementByShape_ctor ::
  "(real \<Rightarrow> Kernel) \<Rightarrow> dimension \<Rightarrow> SPHBody \<Rightarrow> ('pos \<Rightarrow> real) \<Rightarrow> real \<Rightarrow> real \<Rightarrow> int \<Rightarrow>
   'pos ParticleRefinementByShape" where
  "ParticleRefinementByShape_ctor mk dims sph_body shape h_spacing_ratio' system_refinement_ratio'
       local_refinement_level' =
     ParticleWithLocalRefinement.extend
       (ParticleWithLocalRefinement_ctor mk dims sph_body h_spacing_ratio' system_refinement_ratio'
          local_refinement_level')
       (ParticleRefinementByShape.fields shape)"

definition smoothedSpacing :: "'a SPHAdaptation_scheme \<Rightarrow> real \<Rightarrow> real \<Rightarrow> real" where
  "smoothedSpacing a measure' transition_thickness =
     (let ratio_ref = measure' / (2 * transition_thickness);
          target_spacing = spacing_ref a
      in if ratio_ref < KernelSize (kernel_ptr a)
         then (let weight = W_1D (kernel_ptr a) ratio_ref / W_1D (kernel_ptr a) 0
               in weight * spacing_min a + (1 - weight) * spacing_ref a)
         else target_spacing)"

definition ParticleRefinementNearSurface_getLocalSpacingByShape ::
  "('pos, 'a) ParticleRefinementByShape_scheme \<Rightarrow> 'pos \<Rightarrow> real" where
  "ParticleRefinementNearSurface_getLocalSpacingByShape a position =
     (let phi = \<bar>target_shape a position\<bar> in smoothedSpacing a phi (spacing_ref a))"

definition ParticleRefinementWithinShape_getLocalSpacingByShape ::
  "('pos, 'a) ParticleRefinementByShape_scheme \<Rightarrow> 'pos \<Rightarrow> real" where
  "ParticleRefinementWithinShape_getLocalSpacingByShape a position =
     (let phi = target_shape a position
      in if phi < 0 then spacing_min a else smoothedSpacing a phi (spacing_ref a))"

section \<open>Splitting and merging\<close>

record ParticleSplitAndMerge = ParticleWithLocalRefinement +
  minimum_volume :: real
  maximum_volume :: real

text \<open>
  \<^verbatim>\<open>pow(x, y)\<close> is \<open>x powr y\<close>: the base is \<^verbatim>\<open>powerN(2.0, level)\<close>, which is positive.
\<close>

definition ParticleSplitAndMerge_MostRefinedSpacing :: "dimension \<Rightarrow> real \<Rightarrow> int \<Rightarrow> real" where
  "ParticleSplitAndMerge_MostRefinedSpacing dims coarse_particle_spacing local_refinement_level' =
     (let minimum_spacing_particles = powerN 2 local_refinement_level';
          spacing_ratio = minimum_spacing_particles powr (1 / real_of_int (Dimensions dims))
      in coarse_particle_spacing / spacing_ratio)"

text \<open>
  In the body of this constructor the object is a \<^verbatim>\<open>ParticleSplitAndMerge\<close>, so
  \<^verbatim>\<open>MostRefinedSpacing\<close> is the override above. The two volumes are first written here.
\<close>

definition ParticleSplitAndMerge_ctor ::
  "(real \<Rightarrow> Kernel) \<Rightarrow> dimension \<Rightarrow> SPHBody \<Rightarrow> real \<Rightarrow> real \<Rightarrow> int \<Rightarrow> ParticleSplitAndMerge" where
  "ParticleSplitAndMerge_ctor mk dims sph_body h_spacing_ratio' system_resolution_ratio
       local_refinement_level' =
     (let b0 = ParticleWithLocalRefinement_ctor mk dims sph_body h_spacing_ratio'
                 system_resolution_ratio local_refinement_level';
          b1 = b0\<lparr>spacing_min := ParticleSplitAndMerge_MostRefinedSpacing dims
                                    (spacing_ref b0) (local_refinement_level b0)\<rparr>;
          b2 = b1\<lparr>h_ratio_max := spacing_ref b1 / spacing_min b1\<rparr>
      in ParticleWithLocalRefinement.extend b2
           (ParticleSplitAndMerge.fields
              (powerN (spacing_min b2) (Dimensions dims))
              (powerN (spacing_ref b2) (Dimensions dims))))"



definition ParticleSplitAndMerge_resetAdaptationRatios ::
  "(real \<Rightarrow> Kernel) \<Rightarrow> dimension \<Rightarrow> 'a ParticleSplitAndMerge_scheme \<Rightarrow> real \<Rightarrow> real \<Rightarrow>
   'a ParticleSplitAndMerge_scheme" where
  "ParticleSplitAndMerge_resetAdaptationRatios mk dims p h_spacing_ratio' new_system_refinement_ratio =
     (let p1 = SPHAdaptation_resetAdaptationRatios mk dims
                 (ParticleSplitAndMerge_MostRefinedSpacing dims) p
                 h_spacing_ratio' new_system_refinement_ratio;
          p2 = p1\<lparr>minimum_volume := powerN (spacing_min p1) (Dimensions dims)\<rparr>
      in p2\<lparr>maximum_volume := powerN (spacing_ref p2) (Dimensions dims)\<rparr>)"

text \<open>
  The states a split/merge policy can be in: constructed, then, in any order and any
  number of times, its ratios reset, its kernel replaced, its smoothing-length ratios
  registered with a particle store, and \<^verbatim>\<open>h_ratio_\<close> (a public member) written.
\<close>

inductive split_merge_state ::
  "(real \<Rightarrow> Kernel) \<Rightarrow> dimension \<Rightarrow> ParticleSplitAndMerge \<Rightarrow> bool"
  for mk :: "real \<Rightarrow> Kernel" and dims :: dimension where
  constructed:
    "split_merge_state mk dims (ParticleSplitAndMerge_ctor mk dims sph_body h r l)"
| reset:
    "split_merge_state mk dims p \<Longrightarrow>
     split_merge_state mk dims (ParticleSplitAndMerge_resetAdaptationRatios mk dims p h r)"
| kernel_reset:
    "split_merge_state mk dims p \<Longrightarrow> split_merge_state mk dims (resetKernel mk' dims p)"
| registered:
    "split_merge_state mk dims p \<Longrightarrow> split_merge_state mk dims (registerSmoothingLengthRatio n p)"
| h_ratio_written:
    "split_merge_state mk dims p \<Longrightarrow> split_merge_state mk dims (p\<lparr>h_ratio := hs\<rparr>)"

section \<open>Body relations\<close>

text \<open>
  Of a \<^verbatim>\<open>Neighborhood\<close> the code touches \<^verbatim>\<open>current_size_\<close> only; its other members are the
  extension part of the record. Its default constructor is outside these sources: the
  value \<^verbatim>\<open>Neighborhood()\<close> is the parameter \<open>nb0\<close>.
\<close>

record Neighborhood =
  current_size :: nat

record BaseParticles =
  total_real_particles :: nat
  real_particles_bound :: nat

record SPHRelation =
  base_particles :: BaseParticles

record 'n BaseInnerRelation = SPHRelation +
  inner_configuration :: "'n Neighborhood_scheme list"

record ('r, 'n) BaseContactRelation = SPHRelation +
  contact_bodies :: "'r list"
  contact_configuration :: "'n Neighborhood_scheme list list"

text \<open>\<^verbatim>\<open>resize(n, x)\<close> of a vector: cut to \<open>n\<close> entries, or padded with copies of \<open>x\<close>.\<close>

definition resize :: "nat \<Rightarrow> 'a \<Rightarrow> 'a list \<Rightarrow> 'a list" where
  "resize n x xs = take n xs @ replicate (n - length xs) x"

definition BaseInnerRelation_updateConfigurationMemories ::
  "'n Neighborhood_scheme \<Rightarrow> ('n, 'a) BaseInnerRelation_scheme \<Rightarrow> ('n, 'a) BaseInnerRelation_scheme" where
  "BaseInnerRelation_updateConfigurationMemories nb0 r =
     (let updated_size = real_particles_bound (base_particles r)
      in r\<lparr>inner_configuration := resize updated_size nb0 (inner_configuration r)\<rparr>)"

definition BaseInnerRelation_ctor :: "'n Neighborhood_scheme \<Rightarrow> BaseParticles \<Rightarrow> 'n BaseInnerRelation" where
  "BaseInnerRelation_ctor nb0 particles =
     BaseInnerRelation_updateConfigurationMemories nb0
       \<lparr>base_particles = particles, inner_configuration = []\<rparr>"

text \<open>
  The loop of one block \<^verbatim>\<open>[num, end)\<close>. Indexing a vector out of range is undefined in
  C++: the result is \<open>None\<close>.
\<close>

function reset_block ::
  "nat \<Rightarrow> nat \<Rightarrow> 'n Neighborhood_scheme list \<Rightarrow> 'n Neighborhood_scheme list option" where
  "reset_block num end' cfg =
     (if num \<noteq> end'
      then (if num < length cfg
            then reset_block (num + 1) end' (cfg[num := (cfg ! num)\<lparr>current_size := 0\<rparr>])
            else None)
      else Some cfg)"
  by pat_completeness auto
termination
  by (relation "measure (\<lambda>(num, e, cfg). length cfg - num)") auto

text \<open>
  \<^verbatim>\<open>parallel_for\<close> cuts \<^verbatim>\<open>[0, total_real_particles_)\<close> into disjoint blocks and runs the
  body on each; the blocks write disjoint entries, so the outcome is that of the single
  block \<^verbatim>\<open>[0, total_real_particles_)\<close>.
\<close>

definition BaseInnerRelation_resetNeighborhoodCurrentSize ::
  "('n, 'a) BaseInnerRelation_scheme \<Rightarrow> ('n, 'a) BaseInnerRelation_scheme option" where
  "BaseInnerRelation_resetNeighborhoodCurrentSize r =
     (case reset_block 0 (total_real_particles (base_particles r)) (inner_configuration r) of
        None \<Rightarrow> None
      | Some cfg \<Rightarrow> Some (r\<lparr>inner_configuration := cfg\<rparr>))"

function BaseContactRelation_updateConfigurationMemories_loop ::
  "'n Neighborhood_scheme \<Rightarrow> nat \<Rightarrow> nat \<Rightarrow> nat \<Rightarrow> 'n Neighborhood_scheme list list \<Rightarrow>
   'n Neighborhood_scheme list list option" where
  "BaseContactRelation_updateConfigurationMemories_loop nb0 updated_size k n cc =
     (if k \<noteq> n
      then (if k < length cc
            then BaseContactRelation_updateConfigurationMemories_loop nb0 updated_size (k + 1) n
                   (cc[k := resize updated_size nb0 (cc ! k)])
            else None)
      else Some cc)"
  by pat_completeness auto
termination
  by (relation "measure (\<lambda>(nb0, u, k, n, cc). length cc - k)") auto

definition BaseContactRelation_updateConfigurationMemories ::
  "'n Neighborhood_scheme \<Rightarrow> ('r, 'n, 'a) BaseContactRelation_scheme \<Rightarrow>
   ('r, 'n, 'a) BaseContactRelation_scheme option" where
  "BaseContactRelation_updateConfigurationMemories nb0 r =
     (let updated_size = real_particles_bound (base_particles r);
          r1 = r\<lparr>contact_configuration :=
                   resize (length (contact_bodies r)) [] (contact_configuration r)\<rparr>
      in case BaseContactRelation_updateConfigurationMemories_loop nb0 updated_size 0
                (length (contact_bodies r1)) (contact_configuration r1) of
           None \<Rightarrow> None
         | Some cc \<Rightarrow> Some (r1\<lparr>contact_configuration := cc\<rparr>))"

text \<open>
  The constructor takes a \<^verbatim>\<open>RealBodyVector\<close>: every contact body is a real body by its
  type \<open>'r\<close>. \<^verbatim>\<open>subscribeToBody\<close> registers the relation with the body and changes nothing here.
\<close>

definition BaseContactRelation_ctor ::
  "'n Neighborhood_scheme \<Rightarrow> BaseParticles \<Rightarrow> 'r list \<Rightarrow> ('r, 'n) BaseContactRelation option" where
  "BaseContactRelation_ctor nb0 particles contact_sph_bodies =
     BaseContactRelation_updateConfigurationMemories nb0
       \<lparr>base_particles = particles, contact_bodies = contact_sph_bodies,
        contact_configuration = []\<rparr>"

function BaseContactRelation_reset_loop ::
  "nat \<Rightarrow> nat \<Rightarrow> nat \<Rightarrow> 'n Neighborhood_scheme list list \<Rightarrow> 'n Neighborhood_scheme list list option" where
  "BaseContactRelation_reset_loop k n total_real cc =
     (if k \<noteq> n
      then (if k < length cc
            then (case reset_block 0 total_real (cc ! k) of
                    None \<Rightarrow> None
                  | Some cfg \<Rightarrow> BaseContactRelation_reset_loop (k + 1) n total_real (cc[k := cfg]))
            else None)
      else Some cc)"
  by pat_completeness auto
termination
  by (relation "measure (\<lambda>(k, n, t, cc). length cc - k)") auto

definition BaseContactRelation_resetNeighborhoodCurrentSize ::
  "('r, 'n, 'a) BaseContactRelation_scheme \<Rightarrow> ('r, 'n, 'a) BaseContactRelation_scheme option" where
  "BaseContactRelation_resetNeighborhoodCurrentSize r =
     (case BaseContactRelation_reset_loop 0 (length (contact_bodies r))
             (total_real_particles (base_particles r)) (contact_configuration r) of
        None \<Rightarrow> None
      | Some cc \<Rightarrow> Some (r\<lparr>contact_configuration := cc\<rparr>))"

declare reset_block.simps [simp del]
  BaseContactRelation_updateConfigurationMemories_loop.simps [simp del]
  BaseContactRelation_reset_loop.simps [simp del]

subsection \<open>Body parts to real bodies\<close>

text \<open>
  \<^verbatim>\<open>DynamicCast<RealBody>(owner, casted)\<close> is declared outside these sources: it is the
  parameter \<open>DynamicCast\<close>, which either returns the pointer it produces (\<open>Inr\<close>) or does
  not return (\<open>Inl\<close>). The loop pushes one pointer for every body part.
\<close>

record 'b BodyPart =
  getSPHBody :: 'b

fun BodyPartsToRealBodies_loop ::
  "('b BodyPart \<Rightarrow> 'b \<Rightarrow> 'e + 'r) \<Rightarrow> 'b BodyPart list \<Rightarrow> 'r list \<Rightarrow> 'e + 'r list" where
  "BodyPartsToRealBodies_loop DynamicCast [] real_bodies = Inr real_bodies"
| "BodyPartsToRealBodies_loop DynamicCast (part # rest) real_bodies =
     (case DynamicCast part (getSPHBody part) of
        Inl e \<Rightarrow> Inl e
      | Inr real_body \<Rightarrow> BodyPartsToRealBodies_loop DynamicCast rest (real_bodies @ [real_body]))"

definition BodyPartsToRealBodies ::
  "('b BodyPart \<Rightarrow> 'b \<Rightarrow> 'e + 'r) \<Rightarrow> 'b BodyPart list \<Rightarrow> 'e + 'r list" where
  "BodyPartsToRealBodies DynamicCast body_parts = BodyPartsToRealBodies_loop DynamicCast body_parts []"

section \<open>The number density as the spec words it\<close>

text \<open>
  The spec describes \<^verbatim>\<open>computeReferenceNumberDensity\<close> as the sum of \<open>W(|offset|, offset)\<close>
  over the lattice offsets \<open>(i * s, j * s [, k * s])\<close> whose indices range over
  \<open>\<plusminus>(cutoffRadius / spacing + 1)\<close> cells and whose Euclidean norm is strictly below the
  cutoff radius. These definitions follow that wording; they are compared with the loops
  of the source below.
\<close>

definition search_depth_of :: "Kernel \<Rightarrow> real \<Rightarrow> int" where
  "search_depth_of K spacing = int_of_Real (CutOffRadius K / spacing) + 1"

definition lattice_offsets_2d :: "Kernel \<Rightarrow> real \<Rightarrow> (int \<times> int) set" where
  "lattice_offsets_2d K spacing =
     {(i, j). - search_depth_of K spacing \<le> i \<and> i \<le> search_depth_of K spacing
            \<and> - search_depth_of K spacing \<le> j \<and> j \<le> search_depth_of K spacing
            \<and> norm_2d (real_of_int i * spacing, real_of_int j * spacing) < CutOffRadius K}"

definition lattice_sum_2d :: "Kernel \<Rightarrow> real \<Rightarrow> real" where
  "lattice_sum_2d K spacing =
     (\<Sum>(i, j) \<in> lattice_offsets_2d K spacing.
        W_2d K (norm_2d (real_of_int i * spacing, real_of_int j * spacing))
               (real_of_int i * spacing, real_of_int j * spacing))"

definition lattice_offsets_3d :: "Kernel \<Rightarrow> real \<Rightarrow> (int \<times> int \<times> int) set" where
  "lattice_offsets_3d K spacing =
     {(i, j, k). - search_depth_of K spacing \<le> i \<and> i \<le> search_depth_of K spacing
            \<and> - search_depth_of K spacing \<le> j \<and> j \<le> search_depth_of K spacing
            \<and> - search_depth_of K spacing \<le> k \<and> k \<le> search_depth_of K spacing
            \<and> norm_3d (real_of_int i * spacing, real_of_int j * spacing, real_of_int k * spacing)
                < CutOffRadius K}"

definition lattice_sum_3d :: "Kernel \<Rightarrow> real \<Rightarrow> real" where
  "lattice_sum_3d K spacing =
     (\<Sum>(i, j, k) \<in> lattice_offsets_3d K spacing.
        W_3d K (norm_3d (real_of_int i * spacing, real_of_int j * spacing, real_of_int k * spacing))
               (real_of_int i * spacing, real_of_int j * spacing, real_of_int k * spacing))"

section \<open>The kernel contract\<close>

text \<open>
  The kernel is a collaborator outside these sources. Two parts of its contract are
  hypotheses of theorems below. A weight is positive when the cutoff radius is positive,
  the weight is non-negative at every distance inside the cutoff, and it is positive at
  the zero offset (the centre weight). The one-dimensional profile falls off smoothly when the kernel size is
  positive, the profile is non-zero at \<open>0\<close>, zero at the kernel size and continuous from the
  left there.
\<close>

definition positive_weight :: "dimension \<Rightarrow> Kernel \<Rightarrow> bool" where
  "positive_weight dims K =
     (0 < CutOffRadius K \<and>
      (case dims of
         TwoD \<Rightarrow> (\<forall>d x. 0 \<le> d \<and> d < CutOffRadius K \<longrightarrow> 0 \<le> W_2d K d x)
                   \<and> 0 < W_2d K 0 (0, 0)
       | ThreeD \<Rightarrow> (\<forall>d x. 0 \<le> d \<and> d < CutOffRadius K \<longrightarrow> 0 \<le> W_3d K d x)
                   \<and> 0 < W_3d K 0 (0, 0, 0)))"

definition centre_weight :: "dimension \<Rightarrow> Kernel \<Rightarrow> real" where
  "centre_weight dims K = (case dims of TwoD \<Rightarrow> W_2d K 0 (0, 0) | ThreeD \<Rightarrow> W_3d K 0 (0, 0, 0))"

definition smooth_falloff :: "Kernel \<Rightarrow> bool" where
  "smooth_falloff K =
     (0 < KernelSize K \<and> W_1D K 0 \<noteq> 0 \<and> W_1D K (KernelSize K) = 0
      \<and> continuous (at_left (KernelSize K)) (W_1D K))"

section \<open>Reset containers and the contact helper as the spec words them\<close>

text \<open>A container whose first \<open>n\<close> entries have \<open>currentSize = 0\<close>, the others as they were.\<close>

definition zeroed :: "nat \<Rightarrow> 'n Neighborhood_scheme list \<Rightarrow> 'n Neighborhood_scheme list" where
  "zeroed n cfg = map (\<lambda>nb. nb\<lparr>current_size := 0\<rparr>) (take n cfg) @ drop n cfg"

text \<open>
  Bodies for concrete inputs: a body is a \<^verbatim>\<open>RealBody\<close> or some other \<^verbatim>\<open>SPHBody\<close>, with its
  name. The spec has the helper return ``the real bodies among'' the bodies of the given
  parts: \<open>real_bodies_among\<close>. Two instances of \<^verbatim>\<open>DynamicCast\<close> cover what a failed
  \<^verbatim>\<open>dynamic_cast\<close> can lead to: \<open>exiting_cast\<close> reports the null pointer and does not
  return, \<open>null_cast\<close> returns the null pointer.
\<close>

datatype sph_body = RealBody string | OtherSPHBody string

fun real_body_name :: "sph_body \<Rightarrow> string option" where
  "real_body_name (RealBody name) = Some name"
| "real_body_name (OtherSPHBody name) = None"

definition real_bodies_among :: "sph_body BodyPart list \<Rightarrow> string list" where
  "real_bodies_among body_parts =
     List.map_filter (\<lambda>part. real_body_name (getSPHBody part)) body_parts"

fun exiting_cast :: "sph_body BodyPart \<Rightarrow> sph_body \<Rightarrow> string + string" where
  "exiting_cast owner (RealBody name) = Inr name"
| "exiting_cast owner (OtherSPHBody name) = Inl ''Error: pointer DynamicCasting leads to nullptr!''"

fun null_cast :: "sph_body BodyPart \<Rightarrow> sph_body \<Rightarrow> string + string option" where
  "null_cast owner (RealBody name) = Inr (Some name)"
| "null_cast owner (OtherSPHBody name) = Inr None"

section \<open>A kernel instance\<close>

text \<open>
  Modelled from the spec: the kernel classes are outside these sources, and the spec gives
  their interface only (\<^verbatim>\<open>W\<close>, \<^verbatim>\<open>W_1D\<close>, \<^verbatim>\<open>CutOffRadius\<close>, \<^verbatim>\<open>KernelSize\<close>; a weight of
  compact support that falls smoothly from its value at \<open>0\<close> to \<open>0\<close> at the kernel size).
  The theorems below hold for an arbitrary kernel, under the part of that contract they
  need. This instance, with the Wendland C2 polynomial as its profile, shows that the
  contract can be met and instantiates the theorems at concrete inputs.
\<close>

definition WendlandC2 :: "real \<Rightarrow> Kernel" where
  "WendlandC2 h =
     \<lparr> W_2d = (\<lambda>r x. 7 / (4 * pi * h * h) * ((1 - r / h / 2) ^ 4 * (1 + 2 * (r / h)))),
       W_3d = (\<lambda>r x. 21 / (16 * pi * h * h * h) * ((1 - r / h / 2) ^ 4 * (1 + 2 * (r / h)))),
       W_1D = (\<lambda>q. (1 - q / 2) ^ 4 * (1 + 2 * q)),
       CutOffRadius = 2 * h,
       KernelSize = 2 \<rparr>"

section \<open>Properties of the adaptations\<close>

lemmas ctor_defs =
  ParticleSplitAndMerge_ctor_def ParticleWithLocalRefinement_ctor_def
  SPHAdaptation_ctor_body_def SPHAdaptation_ctor_def
  SPHAdaptation_MostRefinedSpacing_def ParticleSplitAndMerge_MostRefinedSpacing_def Let_def
  SPHAdaptation.extend_def ParticleWithLocalRefinement.extend_def
  ParticleSplitAndMerge.fields_def ParticleWithLocalRefinement.fields_def

subsection \<open>Local refinement: spacing derivation\<close>

text \<open>
  C8. A local-refinement policy constructed with refinement level \<open>L \<ge> 0\<close> has
  \<open>spacingMin = spacingRef / 2^L\<close> and \<open>hRatioMax = 2^L\<close>, where \<open>spacingRef\<close> is the
  reference resolution of the body's system divided by the refinement ratio.
\<close>

theorem ParticleWithLocalRefinement_spacing_derivation:
  "0 \<le> l \<Longrightarrow>
   spacing_min (ParticleWithLocalRefinement_ctor mk dims b h r l)
     = spacing_ref (ParticleWithLocalRefinement_ctor mk dims b h r l) / 2 ^ nat l
   \<and> h_ratio_max (ParticleWithLocalRefinement_ctor mk dims b h r l) = 2 ^ nat l
   \<and> spacing_ref (ParticleWithLocalRefinement_ctor mk dims b h r l)
     = resolution_ref (getSPHSystem b) / r"
  by (simp add: ctor_defs powerN_def)

text \<open>
  The scenario of level 2: \<open>spacingMin = spacingRef / 4\<close> (here \<open>0.1 / 4\<close>) and
  \<open>hRatioMax = 4\<close>.
\<close>

theorem ParticleWithLocalRefinement_spacing_derivation_witness:
  "spacing_min (ParticleWithLocalRefinement_ctor WendlandC2 TwoD
       \<lparr>getSPHSystem = \<lparr>resolution_ref = 0.1\<rparr>\<rparr> 1.3 1 2)
     = spacing_ref (ParticleWithLocalRefinement_ctor WendlandC2 TwoD
       \<lparr>getSPHSystem = \<lparr>resolution_ref = 0.1\<rparr>\<rparr> 1.3 1 2) / 4
   \<and> spacing_min (ParticleWithLocalRefinement_ctor WendlandC2 TwoD
       \<lparr>getSPHSystem = \<lparr>resolution_ref = 0.1\<rparr>\<rparr> 1.3 1 2) = 0.025
   \<and> h_ratio_max (ParticleWithLocalRefinement_ctor WendlandC2 TwoD
       \<lparr>getSPHSystem = \<lparr>resolution_ref = 0.1\<rparr>\<rparr> 1.3 1 2) = 4"
  using ParticleWithLocalRefinement_spacing_derivation
    [of 2 WendlandC2 TwoD "\<lparr>getSPHSystem = \<lparr>resolution_ref = 0.1\<rparr>\<rparr>" "1.3" 1]
  by simp

subsection \<open>Split and merge: spacing derivation\<close>

lemma ParticleSplitAndMerge_ctor_fields:
  "spacing_ref (ParticleSplitAndMerge_ctor mk dims b h r l) = resolution_ref (getSPHSystem b) / r"
  "spacing_min (ParticleSplitAndMerge_ctor mk dims b h r l) =
     (resolution_ref (getSPHSystem b) / r) / (powerN 2 l powr (1 / real_of_int (Dimensions dims)))"
  "h_ratio_max (ParticleSplitAndMerge_ctor mk dims b h r l) =
     spacing_ref (ParticleSplitAndMerge_ctor mk dims b h r l)
       / spacing_min (ParticleSplitAndMerge_ctor mk dims b h r l)"
  "minimum_volume (ParticleSplitAndMerge_ctor mk dims b h r l) =
     powerN (spacing_min (ParticleSplitAndMerge_ctor mk dims b h r l)) (Dimensions dims)"
  "maximum_volume (ParticleSplitAndMerge_ctor mk dims b h r l) =
     powerN (spacing_ref (ParticleSplitAndMerge_ctor mk dims b h r l)) (Dimensions dims)"
  by (simp_all add: ctor_defs)

lemma Dimensions_bounds: "0 < Dimensions dims" "2 \<le> Dimensions dims"
  by (cases dims; simp)+

lemma spacing_ratio_powr:
  assumes "0 \<le> l"
  shows "powerN 2 l powr (1 / real_of_int (Dimensions dims))
         = 2 powr (real_of_int l / real_of_int (Dimensions dims))"
proof -
  have "powerN 2 l = 2 powr real (nat l)"
    by (simp add: powerN_def powr_realpow)
  also have "real (nat l) = real_of_int l"
    using assms by simp
  finally show ?thesis
    by (simp add: powr_powr)
qed

lemma spacing_ratio_power:
  assumes "0 \<le> l"
  shows "(2 powr (real_of_int l / real_of_int (Dimensions dims))) ^ nat (Dimensions dims) = 2 ^ nat l"
proof -
  have d: "0 < Dimensions dims"
    by (rule Dimensions_bounds)
  have "(2 powr (real_of_int l / real_of_int (Dimensions dims))) ^ nat (Dimensions dims)
        = (2 powr (real_of_int l / real_of_int (Dimensions dims))) powr real (nat (Dimensions dims))"
    by (simp add: powr_realpow)
  also have "\<dots> = 2 powr (real_of_int l / real_of_int (Dimensions dims) * real_of_int (Dimensions dims))"
    using d by (simp add: powr_powr)
  also have "\<dots> = 2 powr real (nat l)"
    using d assms by simp
  also have "\<dots> = 2 ^ nat l"
    by (simp add: powr_realpow)
  finally show ?thesis .
qed


text \<open>
  C10. A split/merge policy constructed with level \<open>L \<ge> 0\<close> in \<open>D\<close> dimensions (from a
  positive resolution and refinement ratio) has \<open>spacingMin = spacingRef / 2^(L/D)\<close>,
  hence \<open>minimumVolume = spacingRef^D / 2^L\<close> and \<open>hRatioMax = 2^(L/D)\<close>; for \<open>L > 0\<close> this
  spacing is not \<open>spacingRef / 2^L\<close>.
\<close>

theorem ParticleSplitAndMerge_spacing_derivation:
  assumes "0 \<le> l" and "0 < resolution_ref (getSPHSystem b)" and "0 < r"
  shows "spacing_min (ParticleSplitAndMerge_ctor mk dims b h r l) =
           spacing_ref (ParticleSplitAndMerge_ctor mk dims b h r l)
             / 2 powr (real_of_int l / real_of_int (Dimensions dims))
       \<and> minimum_volume (ParticleSplitAndMerge_ctor mk dims b h r l) =
           spacing_ref (ParticleSplitAndMerge_ctor mk dims b h r l) ^ nat (Dimensions dims) / 2 ^ nat l
       \<and> h_ratio_max (ParticleSplitAndMerge_ctor mk dims b h r l) =
           2 powr (real_of_int l / real_of_int (Dimensions dims))
       \<and> (0 < l \<longrightarrow> spacing_min (ParticleSplitAndMerge_ctor mk dims b h r l) \<noteq>
           spacing_ref (ParticleSplitAndMerge_ctor mk dims b h r l) / 2 ^ nat l)"
proof -
  let ?p = "ParticleSplitAndMerge_ctor mk dims b h r l"
  let ?x = "2 powr (real_of_int l / real_of_int (Dimensions dims))"
  have sref: "spacing_ref ?p = resolution_ref (getSPHSystem b) / r"
    by (rule ParticleSplitAndMerge_ctor_fields)
  have pos: "0 < spacing_ref ?p"
    using assms by (simp add: sref)
  have xpos: "0 < ?x"
    by simp
  have smin: "spacing_min ?p = spacing_ref ?p / ?x"
    using assms(1) by (simp add: ParticleSplitAndMerge_ctor_fields spacing_ratio_powr)
  have vol: "minimum_volume ?p = spacing_ref ?p ^ nat (Dimensions dims) / 2 ^ nat l"
    by (simp add: ParticleSplitAndMerge_ctor_fields(4) smin powerN_def power_divide
        spacing_ratio_power [OF assms(1)])
  have hr: "h_ratio_max ?p = ?x"
    using pos by (simp add: ParticleSplitAndMerge_ctor_fields(3) smin)
  have ne: "spacing_min ?p \<noteq> spacing_ref ?p / 2 ^ nat l" if "0 < l"
  proof -
    have "real_of_int l / real_of_int (Dimensions dims) < real_of_int l"
      using that Dimensions_bounds(2) [of dims] by (simp add: divide_less_eq)
    then have "?x < 2 powr real_of_int l"
      by simp
    also have "2 powr real_of_int l = 2 powr real (nat l)"
      using that by simp
    also have "\<dots> = 2 ^ nat l"
      by (simp add: powr_realpow)
    finally have "?x \<noteq> 2 ^ nat l"
      by simp
    then show ?thesis
      using pos xpos by (simp add: smin divide_eq_eq field_simps)
  qed
  show ?thesis
    using smin vol hr ne by blast
qed

text \<open>
  Level 2 in two dimensions, resolution \<open>0.1\<close>: the spacing is halved once (\<open>0.05\<close>, not
  \<open>0.025\<close>), the volume is \<open>0.1\<^sup>2 / 4\<close>, and \<open>hRatioMax = 2\<close>.
\<close>

theorem ParticleSplitAndMerge_spacing_derivation_witness:
  "spacing_min (ParticleSplitAndMerge_ctor WendlandC2 TwoD
       \<lparr>getSPHSystem = \<lparr>resolution_ref = 0.1\<rparr>\<rparr> 1.3 1 2) = 0.05
   \<and> minimum_volume (ParticleSplitAndMerge_ctor WendlandC2 TwoD
       \<lparr>getSPHSystem = \<lparr>resolution_ref = 0.1\<rparr>\<rparr> 1.3 1 2) = 0.0025
   \<and> h_ratio_max (ParticleSplitAndMerge_ctor WendlandC2 TwoD
       \<lparr>getSPHSystem = \<lparr>resolution_ref = 0.1\<rparr>\<rparr> 1.3 1 2) = 2
   \<and> spacing_min (ParticleSplitAndMerge_ctor WendlandC2 TwoD
       \<lparr>getSPHSystem = \<lparr>resolution_ref = 0.1\<rparr>\<rparr> 1.3 1 2) \<noteq> 0.1 / 2 ^ 2"
proof -
  have two: "(2::real) powr (2 / 2) = 2"
    by simp
  have sref: "spacing_ref (ParticleSplitAndMerge_ctor WendlandC2 TwoD
       \<lparr>getSPHSystem = \<lparr>resolution_ref = 0.1\<rparr>\<rparr> 1.3 1 2) = 0.1"
    by (simp add: ParticleSplitAndMerge_ctor_fields)
  show ?thesis
    using ParticleSplitAndMerge_spacing_derivation
      [of 2 "\<lparr>getSPHSystem = \<lparr>resolution_ref = 0.1\<rparr>\<rparr>" 1 WendlandC2 TwoD "1.3"]
    unfolding sref by (simp add: two power2_eq_square)
qed

subsection \<open>Rounding to double\<close>


lemma fl64_eval:
  assumes "power_int 2 k \<le> \<bar>x\<bar>" "\<bar>x\<bar> < power_int 2 (k + 1)"
  shows "fl64 x = of_int (round_half_even (x / power_int 2 (k - 52))) * power_int 2 (k - 52)"
proof -
  have pos: "0 < \<bar>x\<bar>"
    using assms(1) by (smt (verit) zero_less_power_int)
  have "(2::real) powr real_of_int (k + 1) = power_int 2 (k + 1)"
    by (rule powr_real_of_int') simp_all
  then have up: "(2::real) powr (real_of_int k + 1) = power_int 2 (k + 1)"
    by (simp add: add.commute)
  have "(2::real) powr real_of_int k \<le> \<bar>x\<bar>" "\<bar>x\<bar> < 2 powr (real_of_int k + 1)"
    using assms by (simp_all add: powr_real_of_int' up)
  then have "\<lfloor>log 2 \<bar>x\<bar>\<rfloor> = k"
    using pos by (subst floor_log_eq_powr_iff) simp_all
  then show ?thesis
    using pos by (simp add: fl64_def Let_def)
qed






lemma fl64_2: "fl64 2 = 2"
proof -
  have "fl64 2 = of_int (round_half_even (2 / power_int 2 (1 - 52))) * power_int 2 (1 - 52)"
    by (rule fl64_eval) simp_all
  also have "(2::real) / power_int 2 (1 - 52) = 4503599627370496"
    by (simp add: power_int_minus_divide)
  also have "round_half_even 4503599627370496 = 4503599627370496"
    by (simp add: round_half_even_def Let_def)
  finally show ?thesis by (simp add: power_int_minus_divide)
qed






subsection \<open>Split and merge: volume thresholds\<close>





subsection \<open>The reference number density: the loops compute the lattice sum\<close>

lemma add_point_2d_acc:
  "add_point_2d K c s j i sigma = sigma + add_point_2d K c s j i 0"
  by (simp add: add_point_2d_def Let_def)

lemma add_point_3d_acc:
  "add_point_3d K c s k j i sigma = sigma + add_point_3d K c s k j i 0"
  by (simp add: add_point_3d_def Let_def)

lemma int_interval_first: "i \<le> d \<Longrightarrow> {i..d} = insert i {i + 1..d}" for i d :: int
  by auto

lemma sum_int_interval_first:
  fixes f :: "int \<Rightarrow> real"
  assumes "i \<le> d"
  shows "(\<Sum>n = i..d. f n) = f i + (\<Sum>n = i + 1..d. f n)"
proof -
  have "(\<Sum>n = i..d. f n) = sum f (insert i {i + 1..d})"
    using int_interval_first [OF assms] by simp
  also have "\<dots> = f i + (\<Sum>n = i + 1..d. f n)"
    by (rule sum.insert) auto
  finally show ?thesis .
qed

lemma loop_i_2d_sum:
  "loop_i_2d K c s d j i sigma = sigma + (\<Sum>n = i..d. add_point_2d K c s j n 0)"
proof (induction K c s d j i sigma rule: loop_i_2d.induct)
  case (1 K c s d j i sigma)
  show ?case
  proof (cases "i \<le> d")
    case True
    have "loop_i_2d K c s d j i sigma
          = loop_i_2d K c s d j (i + 1) (add_point_2d K c s j i sigma)"
      using True by (subst loop_i_2d.simps) simp
    also have "\<dots> = add_point_2d K c s j i sigma + (\<Sum>n = i + 1..d. add_point_2d K c s j n 0)"
      by (rule "1.IH" [OF True])
    also have "\<dots> = sigma + (\<Sum>n = i..d. add_point_2d K c s j n 0)"
      by (subst add_point_2d_acc) (simp add: sum_int_interval_first [OF True])
    finally show ?thesis .
  next
    case False
    then show ?thesis
      by (subst loop_i_2d.simps) simp
  qed
qed

lemma loop_j_2d_sum:
  "loop_j_2d K c s d j sigma
   = sigma + (\<Sum>m = j..d. \<Sum>n = - d..d. add_point_2d K c s m n 0)"
proof (induction K c s d j sigma rule: loop_j_2d.induct)
  case (1 K c s d j sigma)
  show ?case
  proof (cases "j \<le> d")
    case True
    have "loop_j_2d K c s d j sigma
          = loop_j_2d K c s d (j + 1) (loop_i_2d K c s d j (- d) sigma)"
      using True by (subst loop_j_2d.simps) simp
    also have "\<dots> = loop_i_2d K c s d j (- d) sigma
                     + (\<Sum>m = j + 1..d. \<Sum>n = - d..d. add_point_2d K c s m n 0)"
      by (rule "1.IH" [OF True])
    also have "\<dots> = sigma + (\<Sum>m = j..d. \<Sum>n = - d..d. add_point_2d K c s m n 0)"
      by (simp add: loop_i_2d_sum sum_int_interval_first [OF True])
    finally show ?thesis .
  next
    case False
    then show ?thesis
      by (subst loop_j_2d.simps) simp
  qed
qed

lemma lattice_offsets_2d_filter:
  "lattice_offsets_2d K s =
     {x \<in> {- search_depth_of K s..search_depth_of K s} \<times> {- search_depth_of K s..search_depth_of K s}.
        norm_2d (real_of_int (fst x) * s, real_of_int (snd x) * s) < CutOffRadius K}"
  by (auto simp: lattice_offsets_2d_def)

lemma computeReferenceNumberDensity_2d_lattice:
  "computeReferenceNumberDensity_2d K s = lattice_sum_2d K s"
proof -
  let ?d = "search_depth_of K s"
  let ?c = "CutOffRadius K"
  let ?w = "\<lambda>x. W_2d K (norm_2d (real_of_int (fst x) * s, real_of_int (snd x) * s))
               (real_of_int (fst x) * s, real_of_int (snd x) * s)"
  let ?P = "\<lambda>x. norm_2d (real_of_int (fst x) * s, real_of_int (snd x) * s) < ?c"
  have "computeReferenceNumberDensity_2d K s
        = (\<Sum>j = - ?d..?d. \<Sum>i = - ?d..?d. add_point_2d K ?c s j i 0)"
    by (simp add: computeReferenceNumberDensity_2d_def Let_def search_depth_of_def loop_j_2d_sum)
  also have "\<dots> = (\<Sum>i = - ?d..?d. \<Sum>j = - ?d..?d. add_point_2d K ?c s j i 0)"
    by (rule sum.swap)
  also have "\<dots> = (\<Sum>x \<in> {- ?d..?d} \<times> {- ?d..?d}. add_point_2d K ?c s (snd x) (fst x) 0)"
    by (simp add: sum.cartesian_product case_prod_unfold)
  also have "\<dots> = (\<Sum>x \<in> {- ?d..?d} \<times> {- ?d..?d}. if ?P x then ?w x else 0)"
    by (rule sum.cong) (simp_all add: add_point_2d_def Let_def)
  also have "\<dots> = sum ?w {x \<in> {- ?d..?d} \<times> {- ?d..?d}. ?P x}"
    by (rule sum.inter_filter [symmetric]) simp
  also have "\<dots> = lattice_sum_2d K s"
    by (simp add: lattice_sum_2d_def lattice_offsets_2d_filter case_prod_unfold)
  finally show ?thesis .
qed


lemma loop_i_3d_sum:
  "loop_i_3d K c s d k j i sigma = sigma + (\<Sum>n = i..d. add_point_3d K c s k j n 0)"
proof (induction K c s d k j i sigma rule: loop_i_3d.induct)
  case (1 K c s d k j i sigma)
  show ?case
  proof (cases "i \<le> d")
    case True
    have "loop_i_3d K c s d k j i sigma
          = loop_i_3d K c s d k j (i + 1) (add_point_3d K c s k j i sigma)"
      using True by (subst loop_i_3d.simps) simp
    also have "\<dots> = add_point_3d K c s k j i sigma + (\<Sum>n = i + 1..d. add_point_3d K c s k j n 0)"
      by (rule "1.IH" [OF True])
    also have "\<dots> = sigma + (\<Sum>n = i..d. add_point_3d K c s k j n 0)"
      by (subst add_point_3d_acc) (simp add: sum_int_interval_first [OF True])
    finally show ?thesis .
  next
    case False
    then show ?thesis
      by (subst loop_i_3d.simps) simp
  qed
qed

lemma loop_j_3d_sum:
  "loop_j_3d K c s d k j sigma
   = sigma + (\<Sum>m = j..d. \<Sum>n = - d..d. add_point_3d K c s k m n 0)"
proof (induction K c s d k j sigma rule: loop_j_3d.induct)
  case (1 K c s d k j sigma)
  show ?case
  proof (cases "j \<le> d")
    case True
    have "loop_j_3d K c s d k j sigma
          = loop_j_3d K c s d k (j + 1) (loop_i_3d K c s d k j (- d) sigma)"
      using True by (subst loop_j_3d.simps) simp
    also have "\<dots> = loop_i_3d K c s d k j (- d) sigma
                     + (\<Sum>m = j + 1..d. \<Sum>n = - d..d. add_point_3d K c s k m n 0)"
      by (rule "1.IH" [OF True])
    also have "\<dots> = sigma + (\<Sum>m = j..d. \<Sum>n = - d..d. add_point_3d K c s k m n 0)"
      by (simp add: loop_i_3d_sum sum_int_interval_first [OF True])
    finally show ?thesis .
  next
    case False
    then show ?thesis
      by (subst loop_j_3d.simps) simp
  qed
qed

lemma loop_k_3d_sum:
  "loop_k_3d K c s d k sigma
   = sigma + (\<Sum>l = k..d. \<Sum>m = - d..d. \<Sum>n = - d..d. add_point_3d K c s l m n 0)"
proof (induction K c s d k sigma rule: loop_k_3d.induct)
  case (1 K c s d k sigma)
  show ?case
  proof (cases "k \<le> d")
    case True
    have "loop_k_3d K c s d k sigma
          = loop_k_3d K c s d (k + 1) (loop_j_3d K c s d k (- d) sigma)"
      using True by (subst loop_k_3d.simps) simp
    also have "\<dots> = loop_j_3d K c s d k (- d) sigma
                     + (\<Sum>l = k + 1..d. \<Sum>m = - d..d. \<Sum>n = - d..d. add_point_3d K c s l m n 0)"
      by (rule "1.IH" [OF True])
    also have "\<dots> = sigma + (\<Sum>l = k..d. \<Sum>m = - d..d. \<Sum>n = - d..d. add_point_3d K c s l m n 0)"
      by (simp add: loop_j_3d_sum sum_int_interval_first [OF True])
    finally show ?thesis .
  next
    case False
    then show ?thesis
      by (subst loop_k_3d.simps) simp
  qed
qed

lemma triple_sum_product:
  fixes g :: "int \<Rightarrow> int \<Rightarrow> int \<Rightarrow> real"
  shows "(\<Sum>k \<in> A. \<Sum>j \<in> B. \<Sum>i \<in> C. g k j i)
         = (\<Sum>x \<in> C \<times> B \<times> A. g (snd (snd x)) (fst (snd x)) (fst x))"
proof -
  have "(\<Sum>k \<in> A. \<Sum>j \<in> B. \<Sum>i \<in> C. g k j i) = (\<Sum>j \<in> B. \<Sum>k \<in> A. \<Sum>i \<in> C. g k j i)"
    by (rule sum.swap)
  also have "\<dots> = (\<Sum>j \<in> B. \<Sum>i \<in> C. \<Sum>k \<in> A. g k j i)"
    by (rule sum.cong [OF refl]) (rule sum.swap)
  also have "\<dots> = (\<Sum>i \<in> C. \<Sum>j \<in> B. \<Sum>k \<in> A. g k j i)"
    by (rule sum.swap)
  also have "\<dots> = (\<Sum>x \<in> C \<times> B \<times> A. g (snd (snd x)) (fst (snd x)) (fst x))"
    by (simp add: sum.cartesian_product case_prod_unfold)
  finally show ?thesis .
qed

lemma lattice_offsets_3d_filter:
  "lattice_offsets_3d K s =
     {x \<in> {- search_depth_of K s..search_depth_of K s} \<times> {- search_depth_of K s..search_depth_of K s}
            \<times> {- search_depth_of K s..search_depth_of K s}.
        norm_3d (real_of_int (fst x) * s, real_of_int (fst (snd x)) * s, real_of_int (snd (snd x)) * s)
          < CutOffRadius K}"
  by (auto simp: lattice_offsets_3d_def)

lemma computeReferenceNumberDensity_3d_lattice:
  "computeReferenceNumberDensity_3d K s = lattice_sum_3d K s"
proof -
  let ?d = "search_depth_of K s"
  let ?c = "CutOffRadius K"
  let ?loc = "\<lambda>x. (real_of_int (fst x) * s, real_of_int (fst (snd x)) * s, real_of_int (snd (snd x)) * s)"
  let ?w = "\<lambda>x. W_3d K (norm_3d (?loc x)) (?loc x)"
  let ?P = "\<lambda>x. norm_3d (?loc x) < ?c"
  let ?A = "{- ?d..?d} \<times> {- ?d..?d} \<times> {- ?d..?d}"
  have "computeReferenceNumberDensity_3d K s
        = (\<Sum>k = - ?d..?d. \<Sum>j = - ?d..?d. \<Sum>i = - ?d..?d. add_point_3d K ?c s k j i 0)"
    by (simp add: computeReferenceNumberDensity_3d_def Let_def search_depth_of_def loop_k_3d_sum)
  also have "\<dots> = (\<Sum>x \<in> ?A. add_point_3d K ?c s (snd (snd x)) (fst (snd x)) (fst x) 0)"
    by (rule triple_sum_product)
  also have "\<dots> = (\<Sum>x \<in> ?A. if ?P x then ?w x else 0)"
    by (rule sum.cong) (simp_all add: add_point_3d_def Let_def)
  also have "\<dots> = sum ?w {x \<in> ?A. ?P x}"
    by (rule sum.inter_filter [symmetric]) simp
  also have "\<dots> = lattice_sum_3d K s"
    by (simp add: lattice_sum_3d_def lattice_offsets_3d_filter case_prod_unfold)
  finally show ?thesis .
qed

lemma search_depth_of_pos:
  assumes "0 < s" "0 < CutOffRadius K"
  shows "0 < search_depth_of K s"
proof -
  have "0 \<le> CutOffRadius K / s" using assms by simp
  then show ?thesis by (simp add: search_depth_of_def int_of_Real_def)
qed

lemma finite_lattice_offsets_2d: "finite (lattice_offsets_2d K s)"
  unfolding lattice_offsets_2d_filter by simp

lemma finite_lattice_offsets_3d: "finite (lattice_offsets_3d K s)"
  unfolding lattice_offsets_3d_filter by simp

lemma lattice_sum_2d_pos:
  assumes "0 < s" "0 < CutOffRadius K"
    and nonneg: "\<And>d x. 0 \<le> d \<Longrightarrow> d < CutOffRadius K \<Longrightarrow> 0 \<le> W_2d K d x"
    and centre: "0 < W_2d K 0 (0, 0)"
  shows "0 < lattice_sum_2d K s"
  unfolding lattice_sum_2d_def
proof (rule sum_pos2 [where i = "(0, 0)"])
  show "finite (lattice_offsets_2d K s)" by (rule finite_lattice_offsets_2d)
  show "(0, 0) \<in> lattice_offsets_2d K s"
    using search_depth_of_pos [OF assms(1,2)] assms(2) by (simp add: lattice_offsets_2d_def)
  show "0 < (case (0, 0) of (i, j) \<Rightarrow> W_2d K (norm_2d (real_of_int i * s, real_of_int j * s))
               (real_of_int i * s, real_of_int j * s))"
    using centre by simp
  show "0 \<le> (case x of (i, j) \<Rightarrow> W_2d K (norm_2d (real_of_int i * s, real_of_int j * s))
               (real_of_int i * s, real_of_int j * s))" if "x \<in> lattice_offsets_2d K s" for x
    using that by (auto simp: lattice_offsets_2d_def intro!: nonneg)
qed

lemma lattice_sum_3d_pos:
  assumes "0 < s" "0 < CutOffRadius K"
    and nonneg: "\<And>d x. 0 \<le> d \<Longrightarrow> d < CutOffRadius K \<Longrightarrow> 0 \<le> W_3d K d x"
    and centre: "0 < W_3d K 0 (0, 0, 0)"
  shows "0 < lattice_sum_3d K s"
  unfolding lattice_sum_3d_def
proof (rule sum_pos2 [where i = "(0, 0, 0)"])
  show "finite (lattice_offsets_3d K s)" by (rule finite_lattice_offsets_3d)
  show "(0, 0, 0) \<in> lattice_offsets_3d K s"
    using search_depth_of_pos [OF assms(1,2)] assms(2) by (simp add: lattice_offsets_3d_def)
  show "0 < (case (0, 0, 0) of (i, j, k) \<Rightarrow>
               W_3d K (norm_3d (real_of_int i * s, real_of_int j * s, real_of_int k * s))
               (real_of_int i * s, real_of_int j * s, real_of_int k * s))"
    using centre by simp
  show "0 \<le> (case x of (i, j, k) \<Rightarrow>
               W_3d K (norm_3d (real_of_int i * s, real_of_int j * s, real_of_int k * s))
               (real_of_int i * s, real_of_int j * s, real_of_int k * s))"
    if "x \<in> lattice_offsets_3d K s" for x
    using that by (auto simp: lattice_offsets_3d_def intro!: nonneg)
qed

lemma abs_le_sqrt_sum:
  fixes x r :: real
  assumes "0 \<le> r"
  shows "\<bar>x\<bar> \<le> sqrt (x * x + r)"
proof -
  have "\<bar>x\<bar> = sqrt (x * x)"
    by (simp add: real_sqrt_abs2)
  also have "\<dots> \<le> sqrt (x * x + r)"
    using assms by (intro real_sqrt_le_mono) simp
  finally show ?thesis .
qed

lemma abs_le_norm_2d: "\<bar>x\<bar> \<le> norm_2d (x, y)" "\<bar>y\<bar> \<le> norm_2d (x, y)"
  using abs_le_sqrt_sum [of "y * y" x] abs_le_sqrt_sum [of "x * x" y]
  by (simp_all add: add.commute)

lemma abs_le_norm_3d:
  "\<bar>x\<bar> \<le> norm_3d (x, y, z)" "\<bar>y\<bar> \<le> norm_3d (x, y, z)" "\<bar>z\<bar> \<le> norm_3d (x, y, z)"
  using abs_le_sqrt_sum [of "y * y + z * z" x] abs_le_sqrt_sum [of "x * x + z * z" y]
    abs_le_sqrt_sum [of "x * x + y * y" z]
  by (simp_all add: add.commute add.left_commute add.assoc)

lemma inside_cutoff_in_box:
  assumes "0 < s" "\<bar>real_of_int i * s\<bar> < c"
  shows "\<bar>i\<bar> \<le> int_of_Real (c / s) + 1"
proof -
  have "real_of_int \<bar>i\<bar> * s < c"
    using assms by (simp add: abs_mult)
  then have lt: "real_of_int \<bar>i\<bar> < c / s"
    using assms(1) by (simp add: pos_less_divide_eq)
  then have "0 \<le> c / s"
    by (smt (verit) of_int_abs abs_ge_zero)
  moreover have "\<bar>i\<bar> \<le> \<lfloor>c / s\<rfloor>"
    using lt by (simp add: le_floor_iff)
  ultimately show ?thesis
    by (simp add: int_of_Real_def)
qed

lemma lattice_offsets_2d_inside:
  assumes "0 < s"
  shows "(i, j) \<in> lattice_offsets_2d K s \<longleftrightarrow>
         norm_2d (real_of_int i * s, real_of_int j * s) < CutOffRadius K"
proof
  assume "(i, j) \<in> lattice_offsets_2d K s"
  then show "norm_2d (real_of_int i * s, real_of_int j * s) < CutOffRadius K"
    by (simp add: lattice_offsets_2d_def)
next
  assume n: "norm_2d (real_of_int i * s, real_of_int j * s) < CutOffRadius K"
  have "\<bar>real_of_int i * s\<bar> < CutOffRadius K" "\<bar>real_of_int j * s\<bar> < CutOffRadius K"
    using n abs_le_norm_2d [where x = "real_of_int i * s" and y = "real_of_int j * s"]
    by (linarith, linarith)
  then have "\<bar>i\<bar> \<le> search_depth_of K s" "\<bar>j\<bar> \<le> search_depth_of K s"
    unfolding search_depth_of_def by (auto intro: inside_cutoff_in_box [OF assms])
  with n show "(i, j) \<in> lattice_offsets_2d K s"
    by (auto simp: lattice_offsets_2d_def)
qed

lemma lattice_offsets_3d_inside:
  assumes "0 < s"
  shows "(i, j, k) \<in> lattice_offsets_3d K s \<longleftrightarrow>
         norm_3d (real_of_int i * s, real_of_int j * s, real_of_int k * s) < CutOffRadius K"
proof
  assume "(i, j, k) \<in> lattice_offsets_3d K s"
  then show "norm_3d (real_of_int i * s, real_of_int j * s, real_of_int k * s) < CutOffRadius K"
    by (simp add: lattice_offsets_3d_def)
next
  assume n: "norm_3d (real_of_int i * s, real_of_int j * s, real_of_int k * s) < CutOffRadius K"
  have "\<bar>real_of_int i * s\<bar> < CutOffRadius K" "\<bar>real_of_int j * s\<bar> < CutOffRadius K"
    "\<bar>real_of_int k * s\<bar> < CutOffRadius K"
    using n abs_le_norm_3d [where x = "real_of_int i * s" and y = "real_of_int j * s"
        and z = "real_of_int k * s"]
    by (linarith, linarith, linarith)
  then have "\<bar>i\<bar> \<le> search_depth_of K s" "\<bar>j\<bar> \<le> search_depth_of K s" "\<bar>k\<bar> \<le> search_depth_of K s"
    unfolding search_depth_of_def by (auto intro: inside_cutoff_in_box [OF assms])
  with n show "(i, j, k) \<in> lattice_offsets_3d K s"
    by (auto simp: lattice_offsets_3d_def)
qed

lemma sqrt_four: "sqrt (4::real) = 2"
  using real_sqrt_abs [of 2] by simp

text \<open>
  C6. For every kernel and spacing, \<^verbatim>\<open>computeReferenceNumberDensity\<close> is the sum of
  \<open>W(|offset|, offset)\<close> over the lattice offsets \<open>(i * s, j * s)\<close> (two dimensions, double
  loop) or \<open>(i * s, j * s, k * s)\<close> (three dimensions, triple loop), every index between
  \<open>- d\<close> and \<open>d\<close> for \<open>d = int(c / s) + 1\<close>, over exactly the offsets whose norm is strictly
  less than the cutoff radius \<open>c\<close>. For a positive spacing the index range leaves out no
  lattice point inside the cutoff: the offsets summed are exactly those of norm below \<open>c\<close>.
\<close>

theorem computeReferenceNumberDensity_lattice_sum:
  "computeReferenceNumberDensity TwoD K s = lattice_sum_2d K s
   \<and> computeReferenceNumberDensity ThreeD K s = lattice_sum_3d K s
   \<and> ((i, j) \<in> lattice_offsets_2d K s \<longleftrightarrow>
        \<bar>i\<bar> \<le> int_of_Real (CutOffRadius K / s) + 1 \<and> \<bar>j\<bar> \<le> int_of_Real (CutOffRadius K / s) + 1
        \<and> norm_2d (real_of_int i * s, real_of_int j * s) < CutOffRadius K)
   \<and> ((i, j, k) \<in> lattice_offsets_3d K s \<longleftrightarrow>
        \<bar>i\<bar> \<le> int_of_Real (CutOffRadius K / s) + 1 \<and> \<bar>j\<bar> \<le> int_of_Real (CutOffRadius K / s) + 1
        \<and> \<bar>k\<bar> \<le> int_of_Real (CutOffRadius K / s) + 1
        \<and> norm_3d (real_of_int i * s, real_of_int j * s, real_of_int k * s) < CutOffRadius K)
   \<and> (0 < s \<longrightarrow>
        ((i, j) \<in> lattice_offsets_2d K s \<longleftrightarrow>
           norm_2d (real_of_int i * s, real_of_int j * s) < CutOffRadius K)
      \<and> ((i, j, k) \<in> lattice_offsets_3d K s \<longleftrightarrow>
           norm_3d (real_of_int i * s, real_of_int j * s, real_of_int k * s) < CutOffRadius K))"
proof -
  have "(i, j) \<in> lattice_offsets_2d K s \<longleftrightarrow>
        \<bar>i\<bar> \<le> int_of_Real (CutOffRadius K / s) + 1 \<and> \<bar>j\<bar> \<le> int_of_Real (CutOffRadius K / s) + 1
        \<and> norm_2d (real_of_int i * s, real_of_int j * s) < CutOffRadius K"
    by (auto simp: lattice_offsets_2d_def search_depth_of_def)
  moreover have "(i, j, k) \<in> lattice_offsets_3d K s \<longleftrightarrow>
        \<bar>i\<bar> \<le> int_of_Real (CutOffRadius K / s) + 1 \<and> \<bar>j\<bar> \<le> int_of_Real (CutOffRadius K / s) + 1
        \<and> \<bar>k\<bar> \<le> int_of_Real (CutOffRadius K / s) + 1
        \<and> norm_3d (real_of_int i * s, real_of_int j * s, real_of_int k * s) < CutOffRadius K"
    by (auto simp: lattice_offsets_3d_def search_depth_of_def)
  moreover have "computeReferenceNumberDensity TwoD K s = lattice_sum_2d K s"
    "computeReferenceNumberDensity ThreeD K s = lattice_sum_3d K s"
    by (simp_all add: computeReferenceNumberDensity_2d_lattice computeReferenceNumberDensity_3d_lattice)
  moreover have "((i, j) \<in> lattice_offsets_2d K s \<longleftrightarrow>
           norm_2d (real_of_int i * s, real_of_int j * s) < CutOffRadius K)
      \<and> ((i, j, k) \<in> lattice_offsets_3d K s \<longleftrightarrow>
           norm_3d (real_of_int i * s, real_of_int j * s, real_of_int k * s) < CutOffRadius K)"
    if "0 < s"
    using lattice_offsets_2d_inside [OF that] lattice_offsets_3d_inside [OF that] by blast
  ultimately show ?thesis
    by blast
qed

text \<open>
  Cutoff radius 2 on the unit lattice: the offsets \<open>(1, 1)\<close> and \<open>(1, 1, 1)\<close> lie inside and
  are summed; \<open>(2, 0)\<close> and \<open>(2, 0, 0)\<close> lie on the cutoff and are not.
\<close>

theorem computeReferenceNumberDensity_lattice_sum_witness:
  "(1, 1) \<in> lattice_offsets_2d (WendlandC2 1) 1
   \<and> (2, 0) \<notin> lattice_offsets_2d (WendlandC2 1) 1
   \<and> (1, 1, 1) \<in> lattice_offsets_3d (WendlandC2 1) 1
   \<and> (2, 0, 0) \<notin> lattice_offsets_3d (WendlandC2 1) 1
   \<and> computeReferenceNumberDensity TwoD (WendlandC2 1) 1 = lattice_sum_2d (WendlandC2 1) 1
   \<and> computeReferenceNumberDensity ThreeD (WendlandC2 1) 1 = lattice_sum_3d (WendlandC2 1) 1"
proof -
  have c: "CutOffRadius (WendlandC2 1) = 2"
    by (simp add: WendlandC2_def)
  have a: "sqrt 2 < (2::real)" "sqrt 3 < (2::real)"
    by (rule real_less_lsqrt; simp)+
  show ?thesis
    using computeReferenceNumberDensity_lattice_sum [of "WendlandC2 1" 1 1 1 1]
      computeReferenceNumberDensity_lattice_sum [of "WendlandC2 1" 1 2 0 0] a
    by (simp add: c sqrt_four int_of_Real_def)
qed

subsection \<open>Construction of the base adaptation\<close>

lemma computeReferenceNumberDensity_pos:
  assumes "0 < s" "positive_weight dims K"
  shows "0 < computeReferenceNumberDensity dims K s"
proof (cases dims)
  case TwoD
  have c: "0 < CutOffRadius K" and w: "0 < W_2d K 0 (0, 0)"
    and n: "\<And>d x. 0 \<le> d \<Longrightarrow> d < CutOffRadius K \<Longrightarrow> 0 \<le> W_2d K d x"
    using assms(2) TwoD by (auto simp: positive_weight_def)
  show ?thesis
    using lattice_sum_2d_pos [OF assms(1) c n w] TwoD
    by (simp add: computeReferenceNumberDensity_2d_lattice)
next
  case ThreeD
  have c: "0 < CutOffRadius K" and w: "0 < W_3d K 0 (0, 0, 0)"
    and n: "\<And>d x. 0 \<le> d \<Longrightarrow> d < CutOffRadius K \<Longrightarrow> 0 \<le> W_3d K d x"
    using assms(2) ThreeD by (auto simp: positive_weight_def)
  show ?thesis
    using lattice_sum_3d_pos [OF assms(1) c n w] ThreeD
    by (simp add: computeReferenceNumberDensity_3d_lattice)
qed

lemma WendlandC2_positive_weight:
  assumes "0 < h"
  shows "positive_weight dims (WendlandC2 h)"
proof -
  have profile: "0 \<le> (1 - d / h / 2) ^ 4 * (1 + 2 * (d / h))" if "0 \<le> d" for d
  proof -
    have "0 \<le> d / h" using that assms by simp
    then have "0 \<le> 1 + 2 * (d / h)" by simp
    moreover have "0 \<le> (1 - d / h / 2) ^ 4" by simp
    ultimately show ?thesis by (rule mult_nonneg_nonneg [rotated])
  qed
  have f2: "0 < 7 / (4 * pi * h * h)" using assms by simp
  have f3: "0 < 21 / (16 * pi * h * h * h)" using assms by simp
  show ?thesis
    using assms profile f2 f3
    by (cases dims) (simp_all add: positive_weight_def WendlandC2_def zero_le_mult_iff)
qed

lemma lattice_offsets_empty:
  assumes "CutOffRadius K \<le> 0"
  shows "lattice_offsets_2d K s = {}" "lattice_offsets_3d K s = {}"
proof -
  have n2: "\<not> norm_2d v < CutOffRadius K" for v
    using assms by (cases v) (simp add: not_less order_trans [OF _ real_sqrt_ge_zero])
  have n3: "\<not> norm_3d v < CutOffRadius K" for v
    using assms by (cases v) (simp add: not_less order_trans [OF _ real_sqrt_ge_zero])
  show "lattice_offsets_2d K s = {}"
    using n2 by (auto simp: lattice_offsets_2d_def)
  show "lattice_offsets_3d K s = {}"
    using n3 by (auto simp: lattice_offsets_3d_def)
qed

lemma computeReferenceNumberDensity_no_cutoff:
  assumes "CutOffRadius K \<le> 0"
  shows "computeReferenceNumberDensity dims K s = 0"
  using lattice_offsets_empty [OF assms, of s]
  by (cases dims)
     (simp_all add: computeReferenceNumberDensity_2d_lattice computeReferenceNumberDensity_3d_lattice
        lattice_sum_2d_def lattice_sum_3d_def)

lemma computeReferenceNumberDensity_ge_centre:
  assumes "0 < s" "positive_weight dims K"
  shows "centre_weight dims K \<le> computeReferenceNumberDensity dims K s"
proof (cases dims)
  case TwoD
  have c: "0 < CutOffRadius K"
    and n: "\<And>d x. 0 \<le> d \<Longrightarrow> d < CutOffRadius K \<Longrightarrow> 0 \<le> W_2d K d x"
    using assms(2) TwoD by (auto simp: positive_weight_def)
  let ?f = "\<lambda>(i, j). W_2d K (norm_2d (real_of_int i * s, real_of_int j * s))
               (real_of_int i * s, real_of_int j * s)"
  have "?f (0, 0) \<le> sum ?f (lattice_offsets_2d K s)"
  proof (rule member_le_sum)
    show "(0, 0) \<in> lattice_offsets_2d K s"
      using search_depth_of_pos [OF assms(1) c] c by (simp add: lattice_offsets_2d_def)
    show "finite (lattice_offsets_2d K s)" by (rule finite_lattice_offsets_2d)
    show "0 \<le> ?f x" if "x \<in> lattice_offsets_2d K s - {(0, 0)}" for x
      using that by (auto simp: lattice_offsets_2d_def intro!: n)
  qed
  then show ?thesis
    using TwoD
    by (simp add: centre_weight_def computeReferenceNumberDensity_2d_lattice lattice_sum_2d_def)
next
  case ThreeD
  have c: "0 < CutOffRadius K"
    and n: "\<And>d x. 0 \<le> d \<Longrightarrow> d < CutOffRadius K \<Longrightarrow> 0 \<le> W_3d K d x"
    using assms(2) ThreeD by (auto simp: positive_weight_def)
  let ?f = "\<lambda>(i, j, k). W_3d K (norm_3d (real_of_int i * s, real_of_int j * s, real_of_int k * s))
               (real_of_int i * s, real_of_int j * s, real_of_int k * s)"
  have "?f (0, 0, 0) \<le> sum ?f (lattice_offsets_3d K s)"
  proof (rule member_le_sum)
    show "(0, 0, 0) \<in> lattice_offsets_3d K s"
      using search_depth_of_pos [OF assms(1) c] c by (simp add: lattice_offsets_3d_def)
    show "finite (lattice_offsets_3d K s)" by (rule finite_lattice_offsets_3d)
    show "0 \<le> ?f x" if "x \<in> lattice_offsets_3d K s - {(0, 0, 0)}" for x
      using that by (auto simp: lattice_offsets_3d_def intro!: n)
  qed
  then show ?thesis
    using ThreeD
    by (simp add: centre_weight_def computeReferenceNumberDensity_3d_lattice lattice_sum_3d_def)
qed

text \<open>
  C9 as stated fails: not every construction has a positive reference number density.
  With refinement ratio \<open>- 1\<close> the construction completes with \<open>hRef = - 0.13\<close>; the cutoff
  radius of the kernel is negative, no lattice point lies inside it and the density is 0.
\<close>

theorem SPHAdaptation_ctor_reference_values_counterexample:
  "sigma0_ref (SPHAdaptation_ctor WendlandC2 TwoD 0.1 1.3 (- 1)) = 0
   \<and> \<not> 0 < sigma0_ref (SPHAdaptation_ctor WendlandC2 TwoD 0.1 1.3 (- 1))"
proof -
  have "CutOffRadius (WendlandC2 (1.3 * (0.1 / - 1))) \<le> 0"
    by (simp add: WendlandC2_def)
  then have "computeReferenceNumberDensity TwoD (WendlandC2 (1.3 * (0.1 / - 1))) (0.1 / - 1) = 0"
    by (rule computeReferenceNumberDensity_no_cutoff)
  then show ?thesis
    by (simp add: SPHAdaptation_ctor_def Let_def)
qed

text \<open>
  C9 as amended. The constructed base policy has
  \<open>spacingRef = referenceResolution / refinementRatio\<close> and \<open>hRef = smoothingRatio * spacingRef\<close>,
  its kernel is built at \<open>hRef\<close>, and its reference number density is the lattice sum of
  that kernel over the spacing \<open>spacingRef\<close> (two or three dimensions): a function of the
  inputs alone. For a positive resolution and refinement ratio and a kernel of positive
  weight the density is strictly positive, and at least the centre weight. When the
  kernel's cutoff radius is not positive the density is 0.
\<close>

theorem SPHAdaptation_ctor_reference_values:
  "spacing_ref (SPHAdaptation_ctor mk dims res h r) = res / r
   \<and> h_ref (SPHAdaptation_ctor mk dims res h r) = h * spacing_ref (SPHAdaptation_ctor mk dims res h r)
   \<and> kernel_ptr (SPHAdaptation_ctor mk dims res h r) = mk (h_ref (SPHAdaptation_ctor mk dims res h r))
   \<and> sigma0_ref (SPHAdaptation_ctor mk TwoD res h r) = lattice_sum_2d (mk (h * (res / r))) (res / r)
   \<and> sigma0_ref (SPHAdaptation_ctor mk ThreeD res h r) = lattice_sum_3d (mk (h * (res / r))) (res / r)
   \<and> (0 < res \<and> 0 < r \<and> positive_weight dims (mk (h * (res / r))) \<longrightarrow>
        0 < sigma0_ref (SPHAdaptation_ctor mk dims res h r)
      \<and> centre_weight dims (mk (h * (res / r))) \<le> sigma0_ref (SPHAdaptation_ctor mk dims res h r))
   \<and> (CutOffRadius (mk (h * (res / r))) \<le> 0 \<longrightarrow>
        sigma0_ref (SPHAdaptation_ctor mk dims res h r) = 0)"
proof -
  let ?K = "mk (h * (res / r))"
  have fields: "spacing_ref (SPHAdaptation_ctor mk dims res h r) = res / r"
    "h_ref (SPHAdaptation_ctor mk dims res h r) = h * spacing_ref (SPHAdaptation_ctor mk dims res h r)"
    "kernel_ptr (SPHAdaptation_ctor mk dims res h r) = mk (h_ref (SPHAdaptation_ctor mk dims res h r))"
    by (simp_all add: SPHAdaptation_ctor_def Let_def)
  have sig: "sigma0_ref (SPHAdaptation_ctor mk d res h r)
             = computeReferenceNumberDensity d ?K (res / r)" for d
    by (simp add: SPHAdaptation_ctor_def Let_def)
  have two: "sigma0_ref (SPHAdaptation_ctor mk TwoD res h r) = lattice_sum_2d ?K (res / r)"
    by (simp add: sig computeReferenceNumberDensity_2d_lattice)
  have three: "sigma0_ref (SPHAdaptation_ctor mk ThreeD res h r) = lattice_sum_3d ?K (res / r)"
    by (simp add: sig computeReferenceNumberDensity_3d_lattice)
  have pos: "0 < sigma0_ref (SPHAdaptation_ctor mk dims res h r)
      \<and> centre_weight dims ?K \<le> sigma0_ref (SPHAdaptation_ctor mk dims res h r)"
    if "0 < res" "0 < r" "positive_weight dims ?K"
  proof -
    have s: "0 < res / r" using that(1,2) by simp
    show ?thesis
      unfolding sig
      using computeReferenceNumberDensity_pos [OF s that(3)]
        computeReferenceNumberDensity_ge_centre [OF s that(3)] by simp
  qed
  have zero: "sigma0_ref (SPHAdaptation_ctor mk dims res h r) = 0" if "CutOffRadius ?K \<le> 0"
    unfolding sig by (rule computeReferenceNumberDensity_no_cutoff [OF that])
  show ?thesis
    using fields two three pos zero by blast
qed

text \<open>
  The scenario: resolution \<open>0.1\<close>, smoothing ratio \<open>1.3\<close>, refinement ratio \<open>1\<close>, two
  dimensions; the density exceeds 25. With ratio \<open>- 2\<close> in three dimensions it is 0.
\<close>

theorem SPHAdaptation_ctor_reference_values_witness:
  "spacing_ref (SPHAdaptation_ctor WendlandC2 TwoD 0.1 1.3 1) = 0.1
   \<and> h_ref (SPHAdaptation_ctor WendlandC2 TwoD 0.1 1.3 1) = 0.13
   \<and> 25 < sigma0_ref (SPHAdaptation_ctor WendlandC2 TwoD 0.1 1.3 1)
   \<and> sigma0_ref (SPHAdaptation_ctor WendlandC2 ThreeD 0.1 1.3 (- 2)) = 0"
proof -
  have pw: "positive_weight TwoD (WendlandC2 (1.3 * (0.1 / 1)))"
    by (rule WendlandC2_positive_weight) simp
  have "169 * pi < 169 * 4"
    using pi_less_4 by simp
  then have cw: "25 < centre_weight TwoD (WendlandC2 (1.3 * (0.1 / 1)))"
    using pi_gt_zero by (simp add: centre_weight_def WendlandC2_def field_simps)
  have nc: "CutOffRadius (WendlandC2 (1.3 * (0.1 / - 2))) \<le> 0"
    by (simp add: WendlandC2_def)
  note a = SPHAdaptation_ctor_reference_values [of WendlandC2 TwoD "0.1" "1.3" 1]
  note b = SPHAdaptation_ctor_reference_values [of WendlandC2 ThreeD "0.1" "1.3" "- 2"]
  have "centre_weight TwoD (WendlandC2 (1.3 * (0.1 / 1)))
        \<le> sigma0_ref (SPHAdaptation_ctor WendlandC2 TwoD 0.1 1.3 1)"
    using a pw by simp
  then have "25 < sigma0_ref (SPHAdaptation_ctor WendlandC2 TwoD 0.1 1.3 1)"
    using cw by linarith
  moreover have "sigma0_ref (SPHAdaptation_ctor WendlandC2 ThreeD 0.1 1.3 (- 2)) = 0"
    using b nc by blast
  moreover have "spacing_ref (SPHAdaptation_ctor WendlandC2 TwoD 0.1 1.3 1) = 0.1
      \<and> h_ref (SPHAdaptation_ctor WendlandC2 TwoD 0.1 1.3 1) = 0.13"
    using a by simp
  ultimately show ?thesis by blast
qed

subsection \<open>Resetting the adaptation ratios\<close>

text \<open>
  After a reset of a constructed base policy, \<open>spacingRef\<close>, \<open>hRef\<close>, the kernel,
  \<open>sigma0Ref\<close> and \<open>spacingMin\<close> are those of a fresh construction with the new ratios,
  and a second identical reset changes nothing. \<open>hRatioMax\<close> is \<open>hRef\<close>.
\<close>

lemma resetAdaptationRatios_fresh_fields:
  assumes "r \<noteq> 0"
  shows "spacing_ref (SPHAdaptation_resetAdaptationRatios mk dims SPHAdaptation_MostRefinedSpacing
           (SPHAdaptation_ctor mk dims res h r) h' r') = spacing_ref (SPHAdaptation_ctor mk dims res h' r')"
    "h_ref (SPHAdaptation_resetAdaptationRatios mk dims SPHAdaptation_MostRefinedSpacing
           (SPHAdaptation_ctor mk dims res h r) h' r') = h_ref (SPHAdaptation_ctor mk dims res h' r')"
    "sigma0_ref (SPHAdaptation_resetAdaptationRatios mk dims SPHAdaptation_MostRefinedSpacing
           (SPHAdaptation_ctor mk dims res h r) h' r') = sigma0_ref (SPHAdaptation_ctor mk dims res h' r')"
    "spacing_min (SPHAdaptation_resetAdaptationRatios mk dims SPHAdaptation_MostRefinedSpacing
           (SPHAdaptation_ctor mk dims res h r) h' r') = spacing_min (SPHAdaptation_ctor mk dims res h' r')"
    "kernel_ptr (SPHAdaptation_resetAdaptationRatios mk dims SPHAdaptation_MostRefinedSpacing
           (SPHAdaptation_ctor mk dims res h r) h' r') = kernel_ptr (SPHAdaptation_ctor mk dims res h' r')"
  using assms
  by (simp_all add: SPHAdaptation_resetAdaptationRatios_def SPHAdaptation_ctor_def
      SPHAdaptation_MostRefinedSpacing_def powerN_def Let_def)

lemma resetAdaptationRatios_leaves_h_ref:
  assumes "r \<noteq> 0" "r' \<noteq> 0" "res \<noteq> 0"
  shows "h_ratio_max (SPHAdaptation_resetAdaptationRatios mk dims SPHAdaptation_MostRefinedSpacing
           (SPHAdaptation_ctor mk dims res h r) h' r') = h' * (res / r')"
  using assms
  by (simp add: SPHAdaptation_resetAdaptationRatios_def SPHAdaptation_ctor_def
      SPHAdaptation_MostRefinedSpacing_def powerN_def Let_def)

lemma resetAdaptationRatios_idem:
  assumes "r' \<noteq> 0"
  shows "SPHAdaptation_resetAdaptationRatios mk dims mrs
           (SPHAdaptation_resetAdaptationRatios mk dims mrs a h' r') h' r'
         = SPHAdaptation_resetAdaptationRatios mk dims mrs a h' r'"
  using assms
  by (simp add: SPHAdaptation_resetAdaptationRatios_def Let_def)

text \<open>
  C1 (the code departs from the claim). Construct the base policy with
  \<open>(0.1, 1.3, 1)\<close> and call \<^verbatim>\<open>resetAdaptationRatios(1.3, 1)\<close>: a fresh construction with
  these ratios has \<open>hRatioMax = 1\<close>, the reset leaves \<open>hRatioMax = 0.13\<close>, which is below 1.
  The constructor computes \<^verbatim>\<open>powerN(2.0, local_refinement_level_)\<close>, the reset
  \<^verbatim>\<open>h_ref_ * spacing_ref_ / spacing_min_\<close>. \<^verbatim>\<open>MinimumSmoothingLength()\<close> is \<open>0.13\<close> on the
  fresh policy and \<open>1\<close> after the reset.
\<close>

theorem resetAdaptationRatios_h_ratio_max_differs:
  "h_ratio_max (SPHAdaptation_resetAdaptationRatios mk dims SPHAdaptation_MostRefinedSpacing
     (SPHAdaptation_ctor mk dims 0.1 1.3 1) 1.3 1) = 0.13
   \<and> h_ratio_max (SPHAdaptation_ctor mk dims 0.1 1.3 1) = 1
   \<and> \<not> 1 \<le> h_ratio_max (SPHAdaptation_resetAdaptationRatios mk dims SPHAdaptation_MostRefinedSpacing
     (SPHAdaptation_ctor mk dims 0.1 1.3 1) 1.3 1)
   \<and> MinimumSmoothingLength (SPHAdaptation_ctor mk dims 0.1 1.3 1) = 0.13
   \<and> MinimumSmoothingLength (SPHAdaptation_resetAdaptationRatios mk dims
     SPHAdaptation_MostRefinedSpacing (SPHAdaptation_ctor mk dims 0.1 1.3 1) 1.3 1) = 1"
  by (simp add: SPHAdaptation_resetAdaptationRatios_def SPHAdaptation_ctor_def
      SPHAdaptation_MostRefinedSpacing_def MinimumSmoothingLength_def powerN_def Let_def)

subsection \<open>Arguments are not validated\<close>

text \<open>
  C5 as stated fails: the constructor and \<^verbatim>\<open>resetAdaptationRatios\<close> have no check and no
  failing path. With refinement ratio \<open>- 1\<close> both complete and leave a policy with spacing
  \<open>- 0.1\<close> (and smoothing length \<open>- 0.13\<close>) installed.
\<close>

theorem no_validation_counterexample:
  "spacing_ref (SPHAdaptation_ctor WendlandC2 TwoD 0.1 1.3 (- 1)) = - 0.1
   \<and> h_ref (SPHAdaptation_ctor WendlandC2 TwoD 0.1 1.3 (- 1)) = - 0.13
   \<and> system_refinement_ratio (SPHAdaptation_ctor WendlandC2 TwoD 0.1 1.3 (- 1)) = - 1
   \<and> spacing_ref (SPHAdaptation_resetAdaptationRatios WendlandC2 TwoD SPHAdaptation_MostRefinedSpacing
        (SPHAdaptation_ctor WendlandC2 TwoD 0.1 1.3 1) 1.3 (- 1)) = - 0.1
   \<and> h_ref (SPHAdaptation_resetAdaptationRatios WendlandC2 TwoD SPHAdaptation_MostRefinedSpacing
        (SPHAdaptation_ctor WendlandC2 TwoD 0.1 1.3 1) 1.3 (- 1)) = - 0.13
   \<and> system_refinement_ratio (SPHAdaptation_resetAdaptationRatios WendlandC2 TwoD SPHAdaptation_MostRefinedSpacing
        (SPHAdaptation_ctor WendlandC2 TwoD 0.1 1.3 1) 1.3 (- 1)) = - 1"
  by (simp add: SPHAdaptation_resetAdaptationRatios_def SPHAdaptation_ctor_def Let_def)

text \<open>
  C5 as amended. Construction and reset do not validate their arguments: with a negative
  refinement ratio (and a positive resolution and smoothing ratio; for the reset, on a
  policy with positive spacing and ratio) they complete, and the installed policy has the
  negative ratio, a negative \<open>spacingRef\<close> and a negative \<open>hRef\<close>.
\<close>

theorem no_validation_negative_ratio:
  assumes "r < 0" and "0 < res" and "0 < h"
  shows "spacing_ref (SPHAdaptation_ctor mk dims res h r) < 0
       \<and> h_ref (SPHAdaptation_ctor mk dims res h r) < 0
       \<and> system_refinement_ratio (SPHAdaptation_ctor mk dims res h r) = r
       \<and> (0 < spacing_ref a \<and> 0 < system_refinement_ratio a \<longrightarrow>
           spacing_ref (SPHAdaptation_resetAdaptationRatios mk dims mrs a h r) < 0
         \<and> h_ref (SPHAdaptation_resetAdaptationRatios mk dims mrs a h r) < 0
         \<and> system_refinement_ratio (SPHAdaptation_resetAdaptationRatios mk dims mrs a h r) = r)"
  using assms
  by (simp add: SPHAdaptation_resetAdaptationRatios_def SPHAdaptation_ctor_def Let_def
      divide_neg_pos divide_pos_neg mult_pos_neg zero_less_mult_iff field_simps)

theorem no_validation_negative_ratio_witness:
  "spacing_ref (SPHAdaptation_ctor WendlandC2 ThreeD 0.1 1.3 (- 2)) < 0
   \<and> h_ref (SPHAdaptation_ctor WendlandC2 ThreeD 0.1 1.3 (- 2)) < 0
   \<and> system_refinement_ratio (SPHAdaptation_ctor WendlandC2 ThreeD 0.1 1.3 (- 2)) = - 2
   \<and> spacing_ref (SPHAdaptation_resetAdaptationRatios WendlandC2 ThreeD SPHAdaptation_MostRefinedSpacing
        (SPHAdaptation_ctor WendlandC2 ThreeD 0.1 1.3 1) 1.3 (- 2)) < 0
   \<and> h_ref (SPHAdaptation_resetAdaptationRatios WendlandC2 ThreeD SPHAdaptation_MostRefinedSpacing
        (SPHAdaptation_ctor WendlandC2 ThreeD 0.1 1.3 1) 1.3 (- 2)) < 0
   \<and> system_refinement_ratio (SPHAdaptation_resetAdaptationRatios WendlandC2 ThreeD SPHAdaptation_MostRefinedSpacing
        (SPHAdaptation_ctor WendlandC2 ThreeD 0.1 1.3 1) 1.3 (- 2)) = - 2"
proof -
  have pos: "0 < spacing_ref (SPHAdaptation_ctor WendlandC2 ThreeD 0.1 1.3 1)
      \<and> 0 < system_refinement_ratio (SPHAdaptation_ctor WendlandC2 ThreeD 0.1 1.3 1)"
    by (simp add: SPHAdaptation_ctor_def Let_def)
  show ?thesis
    using no_validation_negative_ratio [of "- 2" "0.1" "1.3" WendlandC2 ThreeD
        "SPHAdaptation_ctor WendlandC2 ThreeD 0.1 1.3 1" SPHAdaptation_MostRefinedSpacing] pos
    by simp
qed

subsection \<open>Smoothed spacing\<close>

lemma smoothedSpacing_unfold:
  "smoothedSpacing a m t =
     (if m / (2 * t) < KernelSize (kernel_ptr a)
      then W_1D (kernel_ptr a) (m / (2 * t)) / W_1D (kernel_ptr a) 0 * spacing_min a
           + (1 - W_1D (kernel_ptr a) (m / (2 * t)) / W_1D (kernel_ptr a) 0) * spacing_ref a
      else spacing_ref a)"
  by (simp add: smoothedSpacing_def Let_def)

lemma scaled_left_image:
  fixes t b :: real
  assumes "0 < t"
  shows "(\<lambda>m. m / (2 * t)) ` {..<2 * t * k} = {..<k}"
proof (rule set_eqI, rule iffI)
  fix y assume "y \<in> (\<lambda>m. m / (2 * t)) ` {..<2 * t * k}"
  then obtain m where "m < 2 * t * k" "y = m / (2 * t)" by auto
  then show "y \<in> {..<k}" using assms by (simp add: divide_less_eq mult.commute)
next
  fix y assume "y \<in> {..<k}"
  then have "y * (2 * t) < 2 * t * k" using assms by (simp add: mult.commute)
  moreover have "y = y * (2 * t) / (2 * t)" using assms by simp
  ultimately show "y \<in> (\<lambda>m. m / (2 * t)) ` {..<2 * t * k}" by blast
qed

lemma left_continuous_scaled:
  fixes w :: "real \<Rightarrow> real"
  assumes "0 < t" "continuous (at_left k) w"
  shows "continuous (at_left (2 * t * k)) (\<lambda>m. w (m / (2 * t)))"
proof -
  have lin: "continuous (at (2 * t * k) within {..<2 * t * k}) (\<lambda>m. m / (2 * t))"
    using assms(1) by (intro continuous_intros) simp
  have pt: "2 * t * k / (2 * t) = k" using assms(1) by simp
  have "continuous (at (2 * t * k) within {..<2 * t * k}) (w \<circ> (\<lambda>m. m / (2 * t)))"
    by (rule continuous_within_compose [OF lin]) (simp add: pt scaled_left_image [OF assms(1)] assms(2))
  then show ?thesis by (simp add: o_def)
qed

lemma WendlandC2_smooth_falloff: "smooth_falloff (WendlandC2 h)"
proof -
  have "continuous (at_left 2) (\<lambda>q::real. (1 - q / 2) ^ 4 * (1 + 2 * q))"
    by (intro continuous_intros) simp
  then show ?thesis
    by (simp add: smooth_falloff_def WendlandC2_def)
qed

text \<open>
  C7. For a positive thickness \<open>t\<close> and a kernel whose profile falls off smoothly,
  \<open>smoothedSpacing m t\<close> is the blend \<open>w * spacingMin + (1 - w) * spacingRef\<close> with
  \<open>w = W_1D(ratio) / W_1D(0)\<close> when \<open>ratio = m / (2 * t)\<close> is below the kernel size, and
  \<open>spacingRef\<close> otherwise. It is \<open>spacingMin\<close> at \<open>m = 0\<close>, it is \<open>spacingRef\<close> for every \<open>m\<close>
  at or beyond \<open>2 * t * KernelSize\<close>, and as a function of \<open>m\<close> it is continuous at that
  boundary.
\<close>

theorem smoothedSpacing_blend:
  assumes "0 < t" and "smooth_falloff (kernel_ptr a)"
  shows "smoothedSpacing a m t =
           (if m / (2 * t) < KernelSize (kernel_ptr a)
            then W_1D (kernel_ptr a) (m / (2 * t)) / W_1D (kernel_ptr a) 0 * spacing_min a
                 + (1 - W_1D (kernel_ptr a) (m / (2 * t)) / W_1D (kernel_ptr a) 0) * spacing_ref a
            else spacing_ref a)
       \<and> smoothedSpacing a 0 t = spacing_min a
       \<and> (2 * t * KernelSize (kernel_ptr a) \<le> m \<longrightarrow> smoothedSpacing a m t = spacing_ref a)
       \<and> isCont (\<lambda>x. smoothedSpacing a x t) (2 * t * KernelSize (kernel_ptr a))"
proof -
  let ?K = "kernel_ptr a"
  let ?k = "KernelSize ?K"
  let ?b = "2 * t * ?k"
  let ?g = "\<lambda>x. W_1D ?K (x / (2 * t)) / W_1D ?K 0 * spacing_min a
                + (1 - W_1D ?K (x / (2 * t)) / W_1D ?K 0) * spacing_ref a"
  have k: "0 < ?k" and w0: "W_1D ?K 0 \<noteq> 0" and wk: "W_1D ?K ?k = 0"
    and cont: "continuous (at_left ?k) (W_1D ?K)"
    using assms(2) by (simp_all add: smooth_falloff_def)
  have zero: "smoothedSpacing a 0 t = spacing_min a"
    using k w0 by (simp add: smoothedSpacing_unfold)
  have beyond: "smoothedSpacing a m t = spacing_ref a" if "?b \<le> m"
  proof -
    have "?k \<le> m / (2 * t)"
      using that assms(1) by (simp add: le_divide_eq mult.commute)
    then show ?thesis by (simp add: smoothedSpacing_unfold)
  qed
  have gb: "?g ?b = spacing_ref a"
    using assms(1) wk by simp
  have eq: "(\<lambda>x. smoothedSpacing a x t) = (\<lambda>x. if x \<le> ?b then ?g x else spacing_ref a)"
  proof
    fix x
    show "smoothedSpacing a x t = (if x \<le> ?b then ?g x else spacing_ref a)"
    proof (cases "x < ?b")
      case True
      then have "x / (2 * t) < ?k" using assms(1) by (simp add: divide_less_eq mult.commute)
      with True show ?thesis by (simp add: smoothedSpacing_unfold)
    next
      case False
      then have "\<not> x / (2 * t) < ?k" using assms(1) by (simp add: divide_less_eq mult.commute)
      with False gb show ?thesis by (cases "x = ?b") (simp_all add: smoothedSpacing_unfold)
    qed
  qed
  have gl: "continuous (at_left ?b) ?g"
    using w0 by (intro continuous_intros left_continuous_scaled [OF assms(1) cont]) simp_all
  have "isCont (\<lambda>x. if x \<le> ?b then ?g x else spacing_ref a) ?b"
    by (rule isCont_If_ge [OF gl]) (simp only: gb tendsto_const)
  then have cts: "isCont (\<lambda>x. smoothedSpacing a x t) ?b"
    by (simp only: eq)
  show ?thesis
    using zero beyond cts smoothedSpacing_unfold [of a m t] by blast
qed

lemma ParticleRefinementByShape_ctor_fields:
  "kernel_ptr (ParticleRefinementByShape_ctor mk dims b shape h r l)
     = mk (h * (resolution_ref (getSPHSystem b) / r))"
  "spacing_ref (ParticleRefinementByShape_ctor mk dims b shape h r l)
     = resolution_ref (getSPHSystem b) / r"
  "spacing_min (ParticleRefinementByShape_ctor mk dims b shape h r l)
     = resolution_ref (getSPHSystem b) / r / powerN 2 l"
  by (simp_all add: ParticleRefinementByShape_ctor_def ctor_defs)

text \<open>
  A policy of level 2 at resolution \<open>0.1\<close> around the unit circle, thickness \<open>0.1\<close>: the
  boundary is at \<open>m = 0.4\<close>; half way (\<open>ratio = 1\<close>) the weight is \<open>3 / 16\<close>.
\<close>

theorem smoothedSpacing_blend_witness:
  "smoothedSpacing (ParticleRefinementByShape_ctor WendlandC2 TwoD
       \<lparr>getSPHSystem = \<lparr>resolution_ref = 0.1\<rparr>\<rparr> (\<lambda>p. norm_2d p - 1) 1.3 1 2) 0 0.1 = 0.025
   \<and> smoothedSpacing (ParticleRefinementByShape_ctor WendlandC2 TwoD
       \<lparr>getSPHSystem = \<lparr>resolution_ref = 0.1\<rparr>\<rparr> (\<lambda>p. norm_2d p - 1) 1.3 1 2) 0.2 0.1
       = 3 / 16 * 0.025 + 13 / 16 * 0.1
   \<and> smoothedSpacing (ParticleRefinementByShape_ctor WendlandC2 TwoD
       \<lparr>getSPHSystem = \<lparr>resolution_ref = 0.1\<rparr>\<rparr> (\<lambda>p. norm_2d p - 1) 1.3 1 2) 0.4 0.1 = 0.1
   \<and> isCont (\<lambda>x. smoothedSpacing (ParticleRefinementByShape_ctor WendlandC2 TwoD
       \<lparr>getSPHSystem = \<lparr>resolution_ref = 0.1\<rparr>\<rparr> (\<lambda>p. norm_2d p - 1) 1.3 1 2) x 0.1) 0.4"
proof -
  let ?a = "ParticleRefinementByShape_ctor WendlandC2 TwoD
       \<lparr>getSPHSystem = \<lparr>resolution_ref = 0.1\<rparr>\<rparr> (\<lambda>p. norm_2d p - 1) 1.3 1 2"
  have K: "kernel_ptr ?a = WendlandC2 (1.3 * (0.1 / 1))"
    by (simp add: ParticleRefinementByShape_ctor_fields)
  have sf: "smooth_falloff (kernel_ptr ?a)"
    unfolding K by (rule WendlandC2_smooth_falloff)
  have t: "(0::real) < 0.1"
    by simp
  have ks: "KernelSize (kernel_ptr ?a) = 2" and w: "W_1D (kernel_ptr ?a) = (\<lambda>q. (1 - q / 2) ^ 4 * (1 + 2 * q))"
    unfolding K by (simp_all add: WendlandC2_def)
  have smin: "spacing_min ?a = 0.025" and sref: "spacing_ref ?a = 0.1"
    by (simp_all add: ParticleRefinementByShape_ctor_fields powerN_def)
  show ?thesis
    using smoothedSpacing_blend [OF t sf, of "0.2"] smoothedSpacing_blend [OF t sf, of "0.4"]
    by (simp add: ks w smin sref power4_eq_xxxx)
qed

section \<open>Properties of the body relations\<close>

subsection \<open>Resetting the neighbourhood sizes\<close>

lemma reset_block_spec:
  "num \<le> e \<Longrightarrow> e \<le> length cfg \<Longrightarrow>
   \<exists>cfg'. reset_block num e cfg = Some cfg' \<and> length cfg' = length cfg \<and>
     (\<forall>i < length cfg. cfg' ! i = (if num \<le> i \<and> i < e then (cfg ! i)\<lparr>current_size := 0\<rparr> else cfg ! i))"
proof (induction num e cfg rule: reset_block.induct)
  case (1 num e cfg)
  show ?case
  proof (cases "num = e")
    case True
    then show ?thesis by (subst reset_block.simps) simp
  next
    case False
    with 1(2,3) have lt: "num < length cfg" and le: "num + 1 \<le> e" by simp_all
    let ?cfg = "cfg[num := (cfg ! num)\<lparr>current_size := 0\<rparr>]"
    from "1.IH" [OF False lt le] 1(3)
    obtain cfg' where r: "reset_block (num + 1) e ?cfg = Some cfg'"
      and len: "length cfg' = length cfg"
      and nth: "\<forall>i < length cfg. cfg' ! i =
                 (if num + 1 \<le> i \<and> i < e then (?cfg ! i)\<lparr>current_size := 0\<rparr> else ?cfg ! i)"
      by auto
    have "reset_block num e cfg = Some cfg'"
      using False lt r by (subst reset_block.simps) simp
    moreover have "cfg' ! i = (if num \<le> i \<and> i < e then (cfg ! i)\<lparr>current_size := 0\<rparr> else cfg ! i)"
      if "i < length cfg" for i
      using nth that le by (cases "i = num") (auto simp: nth_list_update)
    ultimately show ?thesis using len by blast
  qed
qed

lemma reset_block_zeroed:
  assumes "e \<le> length cfg"
  shows "reset_block 0 e cfg = Some (zeroed e cfg)"
proof -
  from reset_block_spec [of 0 e cfg] assms
  obtain cfg' where r: "reset_block 0 e cfg = Some cfg'" and len: "length cfg' = length cfg"
    and nth: "\<forall>i < length cfg. cfg' ! i = (if i < e then (cfg ! i)\<lparr>current_size := 0\<rparr> else cfg ! i)"
    by auto
  have "cfg' = zeroed e cfg"
  proof (rule nth_equalityI)
    show "length cfg' = length (zeroed e cfg)"
      using len assms by (simp add: zeroed_def)
    show "cfg' ! i = zeroed e cfg ! i" if "i < length cfg'" for i
      using that len nth assms by (auto simp: zeroed_def nth_append)
  qed
  with r show ?thesis by simp
qed


lemma zeroed_props:
  "length (zeroed n cfg) = length cfg"
  "i < n \<Longrightarrow> i < length cfg \<Longrightarrow> zeroed n cfg ! i = (cfg ! i)\<lparr>current_size := 0\<rparr>"
  "n \<le> i \<Longrightarrow> i < length cfg \<Longrightarrow> zeroed n cfg ! i = cfg ! i"
  by (auto simp: zeroed_def nth_append)

lemma zeroed_idem: "zeroed n (zeroed n cfg) = zeroed n cfg"
  by (rule nth_equalityI) (auto simp: zeroed_def nth_append min_def)

lemma zeroed_comp: "zeroed n \<circ> zeroed n = zeroed n"
  by (rule ext) (simp add: zeroed_idem)

lemma contact_reset_loop_spec:
  "k \<le> n \<Longrightarrow> n \<le> length cc \<Longrightarrow> (\<forall>m. k \<le> m \<and> m < n \<longrightarrow> t \<le> length (cc ! m)) \<Longrightarrow>
   \<exists>cc'. BaseContactRelation_reset_loop k n t cc = Some cc' \<and> length cc' = length cc \<and>
     (\<forall>m < length cc. cc' ! m = (if k \<le> m \<and> m < n then zeroed t (cc ! m) else cc ! m))"
proof (induction k n t cc rule: BaseContactRelation_reset_loop.induct)
  case (1 k n t cc)
  show ?case
  proof (cases "k = n")
    case True
    then show ?thesis by (subst BaseContactRelation_reset_loop.simps) auto
  next
    case False
    with 1(2,3) have lt: "k < length cc" and le: "k + 1 \<le> n" and kn: "k < n" by simp_all
    have blk: "reset_block 0 t (cc ! k) = Some (zeroed t (cc ! k))"
      using 1(4) kn by (intro reset_block_zeroed) simp
    let ?cc = "cc[k := zeroed t (cc ! k)]"
    have pre: "\<forall>m. k + 1 \<le> m \<and> m < n \<longrightarrow> t \<le> length (?cc ! m)"
      using 1(4) by (auto simp: nth_list_update)
    from "1.IH" [OF False lt blk le _ pre] 1(3)
    obtain cc' where r: "BaseContactRelation_reset_loop (k + 1) n t ?cc = Some cc'"
      and len: "length cc' = length cc"
      and nth: "\<forall>m < length cc. cc' ! m =
                 (if k + 1 \<le> m \<and> m < n then zeroed t (?cc ! m) else ?cc ! m)"
      by auto
    have "BaseContactRelation_reset_loop k n t cc = Some cc'"
      using False lt r blk by (subst BaseContactRelation_reset_loop.simps) simp
    moreover have "cc' ! m = (if k \<le> m \<and> m < n then zeroed t (cc ! m) else cc ! m)"
      if "m < length cc" for m
      using nth that le by (cases "m = k") (auto simp: nth_list_update)
    ultimately show ?thesis using len by blast
  qed
qed

lemma contact_reset_loop_zeroed:
  assumes "n \<le> length cc" "\<forall>m < n. t \<le> length (cc ! m)"
  shows "BaseContactRelation_reset_loop 0 n t cc = Some (map (zeroed t) (take n cc) @ drop n cc)"
proof -
  from contact_reset_loop_spec [of 0 n cc t] assms
  obtain cc' where r: "BaseContactRelation_reset_loop 0 n t cc = Some cc'"
    and len: "length cc' = length cc"
    and nth: "\<forall>m < length cc. cc' ! m = (if m < n then zeroed t (cc ! m) else cc ! m)"
    by auto
  have "cc' = map (zeroed t) (take n cc) @ drop n cc"
  proof (rule nth_equalityI)
    show "length cc' = length (map (zeroed t) (take n cc) @ drop n cc)"
      using len assms by simp
    show "cc' ! i = (map (zeroed t) (take n cc) @ drop n cc) ! i" if "i < length cc'" for i
      using that len nth assms by (auto simp: nth_append)
  qed
  with r show ?thesis by simp
qed

lemma BaseInnerRelation_reset_zeroed:
  assumes "total_real_particles (base_particles r) \<le> length (inner_configuration r)"
  shows "BaseInnerRelation_resetNeighborhoodCurrentSize r =
           Some (r\<lparr>inner_configuration :=
                    zeroed (total_real_particles (base_particles r)) (inner_configuration r)\<rparr>)"
  using assms by (simp add: BaseInnerRelation_resetNeighborhoodCurrentSize_def reset_block_zeroed)

lemma BaseContactRelation_reset_zeroed:
  assumes "length (contact_bodies c) \<le> length (contact_configuration c)"
    and "\<forall>k < length (contact_bodies c).
           total_real_particles (base_particles c) \<le> length (contact_configuration c ! k)"
  shows "BaseContactRelation_resetNeighborhoodCurrentSize c =
           Some (c\<lparr>contact_configuration :=
                    map (zeroed (total_real_particles (base_particles c)))
                      (take (length (contact_bodies c)) (contact_configuration c))
                    @ drop (length (contact_bodies c)) (contact_configuration c)\<rparr>)"
  using assms
  by (simp add: BaseContactRelation_resetNeighborhoodCurrentSize_def contact_reset_loop_zeroed)

text \<open>
  C2 as stated fails: the loop runs over \<^verbatim>\<open>[0, total_real_particles_)\<close>, and the
  containers are sized to \<^verbatim>\<open>real_particles_bound_\<close>. With one real particle in a container
  of two entries the second entry keeps its size 5.
\<close>

theorem resetNeighborhoodCurrentSize_counterexample:
  "BaseInnerRelation_resetNeighborhoodCurrentSize
     \<lparr>base_particles = \<lparr>total_real_particles = 1, real_particles_bound = 2\<rparr>,
      inner_configuration = [\<lparr>current_size = 3\<rparr>, \<lparr>current_size = 5\<rparr>]\<rparr>
   = Some \<lparr>base_particles = \<lparr>total_real_particles = 1, real_particles_bound = 2\<rparr>,
           inner_configuration = [\<lparr>current_size = 0\<rparr>, \<lparr>current_size = 5\<rparr>]\<rparr>"
  by (simp add: BaseInnerRelation_resetNeighborhoodCurrentSize_def reset_block_zeroed zeroed_def)

text \<open>
  C2 as amended. When the containers hold at least \<^verbatim>\<open>total_real_particles_\<close> entries (for a
  contact relation: one container for every contact body, each that long), the reset
  returns; every Neighborhood of a real particle (index below \<^verbatim>\<open>total_real_particles_\<close>), in
  every container, has \<open>currentSize = 0\<close> and is otherwise unchanged; the entries from
  \<^verbatim>\<open>total_real_particles_\<close> on are unchanged; and a second reset changes nothing.
\<close>

theorem resetNeighborhoodCurrentSize_real_particles:
  "(total_real_particles (base_particles r) \<le> length (inner_configuration r) \<longrightarrow>
     (\<exists>r'. BaseInnerRelation_resetNeighborhoodCurrentSize r = Some r'
        \<and> base_particles r' = base_particles r
        \<and> length (inner_configuration r') = length (inner_configuration r)
        \<and> (\<forall>i < length (inner_configuration r).
              (i < total_real_particles (base_particles r) \<longrightarrow>
                 inner_configuration r' ! i = (inner_configuration r ! i)\<lparr>current_size := 0\<rparr>)
            \<and> (total_real_particles (base_particles r) \<le> i \<longrightarrow>
                 inner_configuration r' ! i = inner_configuration r ! i))
        \<and> BaseInnerRelation_resetNeighborhoodCurrentSize r' = Some r'))
   \<and> (length (contact_bodies c) \<le> length (contact_configuration c)
      \<and> (\<forall>k < length (contact_bodies c).
            total_real_particles (base_particles c) \<le> length (contact_configuration c ! k)) \<longrightarrow>
     (\<exists>c'. BaseContactRelation_resetNeighborhoodCurrentSize c = Some c'
        \<and> base_particles c' = base_particles c \<and> contact_bodies c' = contact_bodies c
        \<and> length (contact_configuration c') = length (contact_configuration c)
        \<and> (\<forall>k < length (contact_bodies c).
              length (contact_configuration c' ! k) = length (contact_configuration c ! k)
            \<and> (\<forall>i < length (contact_configuration c ! k).
                  (i < total_real_particles (base_particles c) \<longrightarrow>
                     contact_configuration c' ! k ! i
                       = (contact_configuration c ! k ! i)\<lparr>current_size := 0\<rparr>)
                \<and> (total_real_particles (base_particles c) \<le> i \<longrightarrow>
                     contact_configuration c' ! k ! i = contact_configuration c ! k ! i)))
        \<and> BaseContactRelation_resetNeighborhoodCurrentSize c' = Some c'))"
proof (intro conjI impI)
  assume a: "total_real_particles (base_particles r) \<le> length (inner_configuration r)"
  let ?t = "total_real_particles (base_particles r)"
  let ?r = "r\<lparr>inner_configuration := zeroed ?t (inner_configuration r)\<rparr>"
  have 1: "BaseInnerRelation_resetNeighborhoodCurrentSize r = Some ?r"
    by (rule BaseInnerRelation_reset_zeroed [OF a])
  have 2: "BaseInnerRelation_resetNeighborhoodCurrentSize ?r = Some ?r"
    using a by (subst BaseInnerRelation_reset_zeroed) (simp_all add: zeroed_props zeroed_idem)
  show "\<exists>r'. BaseInnerRelation_resetNeighborhoodCurrentSize r = Some r'
        \<and> base_particles r' = base_particles r
        \<and> length (inner_configuration r') = length (inner_configuration r)
        \<and> (\<forall>i < length (inner_configuration r).
              (i < total_real_particles (base_particles r) \<longrightarrow>
                 inner_configuration r' ! i = (inner_configuration r ! i)\<lparr>current_size := 0\<rparr>)
            \<and> (total_real_particles (base_particles r) \<le> i \<longrightarrow>
                 inner_configuration r' ! i = inner_configuration r ! i))
        \<and> BaseInnerRelation_resetNeighborhoodCurrentSize r' = Some r'"
    using 1 2 by (intro exI [of _ ?r]) (simp add: zeroed_props)
next
  assume b: "length (contact_bodies c) \<le> length (contact_configuration c)
      \<and> (\<forall>k < length (contact_bodies c).
            total_real_particles (base_particles c) \<le> length (contact_configuration c ! k))"
  let ?t = "total_real_particles (base_particles c)"
  let ?n = "length (contact_bodies c)"
  let ?cc = "map (zeroed ?t) (take ?n (contact_configuration c)) @ drop ?n (contact_configuration c)"
  let ?c = "c\<lparr>contact_configuration := ?cc\<rparr>"
  have 1: "BaseContactRelation_resetNeighborhoodCurrentSize c = Some ?c"
    using b by (intro BaseContactRelation_reset_zeroed) simp_all
  have 2: "BaseContactRelation_resetNeighborhoodCurrentSize ?c = Some ?c"
    using b by (subst BaseContactRelation_reset_zeroed) (simp_all add: zeroed_props nth_append zeroed_comp)
  have 3: "?cc ! k = zeroed ?t (contact_configuration c ! k)" if "k < ?n" for k
    using that b by (simp add: nth_append)
  show "\<exists>c'. BaseContactRelation_resetNeighborhoodCurrentSize c = Some c'
        \<and> base_particles c' = base_particles c \<and> contact_bodies c' = contact_bodies c
        \<and> length (contact_configuration c') = length (contact_configuration c)
        \<and> (\<forall>k < length (contact_bodies c).
              length (contact_configuration c' ! k) = length (contact_configuration c ! k)
            \<and> (\<forall>i < length (contact_configuration c ! k).
                  (i < total_real_particles (base_particles c) \<longrightarrow>
                     contact_configuration c' ! k ! i
                       = (contact_configuration c ! k ! i)\<lparr>current_size := 0\<rparr>)
                \<and> (total_real_particles (base_particles c) \<le> i \<longrightarrow>
                     contact_configuration c' ! k ! i = contact_configuration c ! k ! i)))
        \<and> BaseContactRelation_resetNeighborhoodCurrentSize c' = Some c'"
    using 1 2 b by (intro exI [of _ ?c]) (simp add: 3 zeroed_props del: map_append)
qed

text \<open>
  An inner relation with two real particles in a container of three, and a contact
  relation with two contact bodies and one real particle in containers of two.
\<close>

theorem resetNeighborhoodCurrentSize_real_particles_witness:
  "(\<exists>r'. BaseInnerRelation_resetNeighborhoodCurrentSize
            \<lparr>base_particles = \<lparr>total_real_particles = 2, real_particles_bound = 3\<rparr>,
             inner_configuration = [\<lparr>current_size = 3\<rparr>, \<lparr>current_size = 5\<rparr>, \<lparr>current_size = 7\<rparr>]\<rparr>
          = Some r'
        \<and> inner_configuration r' ! 0 = \<lparr>current_size = 0\<rparr>
        \<and> inner_configuration r' ! 1 = \<lparr>current_size = 0\<rparr>
        \<and> inner_configuration r' ! 2 = \<lparr>current_size = 7\<rparr>
        \<and> BaseInnerRelation_resetNeighborhoodCurrentSize r' = Some r')
   \<and> (\<exists>c'. BaseContactRelation_resetNeighborhoodCurrentSize
            \<lparr>base_particles = \<lparr>total_real_particles = 1, real_particles_bound = 2\<rparr>,
             contact_bodies = [''wall'', ''gate''],
             contact_configuration = [[\<lparr>current_size = 1\<rparr>, \<lparr>current_size = 2\<rparr>],
                                      [\<lparr>current_size = 4\<rparr>, \<lparr>current_size = 6\<rparr>]]\<rparr>
          = Some c'
        \<and> contact_configuration c' ! 0 ! 0 = \<lparr>current_size = 0\<rparr>
        \<and> contact_configuration c' ! 0 ! 1 = \<lparr>current_size = 2\<rparr>
        \<and> contact_configuration c' ! 1 ! 0 = \<lparr>current_size = 0\<rparr>
        \<and> contact_configuration c' ! 1 ! 1 = \<lparr>current_size = 6\<rparr>
        \<and> BaseContactRelation_resetNeighborhoodCurrentSize c' = Some c')"
proof -
  let ?R = "\<lparr>base_particles = \<lparr>total_real_particles = 2, real_particles_bound = 3\<rparr>,
             inner_configuration = [\<lparr>current_size = 3\<rparr>, \<lparr>current_size = 5\<rparr>, \<lparr>current_size = 7\<rparr>]\<rparr>"
  let ?C = "\<lparr>base_particles = \<lparr>total_real_particles = 1, real_particles_bound = 2\<rparr>,
             contact_bodies = [''wall'', ''gate''],
             contact_configuration = [[\<lparr>current_size = 1\<rparr>, \<lparr>current_size = 2\<rparr>],
                                      [\<lparr>current_size = 4\<rparr>, \<lparr>current_size = 6\<rparr>]]\<rparr>"
  note inst = resetNeighborhoodCurrentSize_real_particles [of ?R ?C]
  have preR: "total_real_particles (base_particles ?R) \<le> length (inner_configuration ?R)"
    by simp
  have preC: "length (contact_bodies ?C) \<le> length (contact_configuration ?C)
      \<and> (\<forall>k < length (contact_bodies ?C).
            total_real_particles (base_particles ?C) \<le> length (contact_configuration ?C ! k))"
    by (simp add: nth_Cons split: nat.splits)
  from inst preR obtain r' where r:
    "BaseInnerRelation_resetNeighborhoodCurrentSize ?R = Some r'"
    "\<forall>i < length (inner_configuration ?R).
              (i < total_real_particles (base_particles ?R) \<longrightarrow>
                 inner_configuration r' ! i = (inner_configuration ?R ! i)\<lparr>current_size := 0\<rparr>)
            \<and> (total_real_particles (base_particles ?R) \<le> i \<longrightarrow>
                 inner_configuration r' ! i = inner_configuration ?R ! i)"
    "BaseInnerRelation_resetNeighborhoodCurrentSize r' = Some r'"
    by blast
  from inst preC obtain c' where c:
    "BaseContactRelation_resetNeighborhoodCurrentSize ?C = Some c'"
    "\<forall>k < length (contact_bodies ?C).
              length (contact_configuration c' ! k) = length (contact_configuration ?C ! k)
            \<and> (\<forall>i < length (contact_configuration ?C ! k).
                  (i < total_real_particles (base_particles ?C) \<longrightarrow>
                     contact_configuration c' ! k ! i
                       = (contact_configuration ?C ! k ! i)\<lparr>current_size := 0\<rparr>)
                \<and> (total_real_particles (base_particles ?C) \<le> i \<longrightarrow>
                     contact_configuration c' ! k ! i = contact_configuration ?C ! k ! i))"
    "BaseContactRelation_resetNeighborhoodCurrentSize c' = Some c'"
    by blast
  have "inner_configuration r' ! 0 = \<lparr>current_size = 0\<rparr>"
    "inner_configuration r' ! 1 = \<lparr>current_size = 0\<rparr>"
    "inner_configuration r' ! 2 = \<lparr>current_size = 7\<rparr>"
    using r(2) [rule_format, of 0] r(2) [rule_format, of 1] r(2) [rule_format, of 2] by simp_all
  moreover have "contact_configuration c' ! 0 ! 0 = \<lparr>current_size = 0\<rparr>"
    "contact_configuration c' ! 0 ! 1 = \<lparr>current_size = 2\<rparr>"
    "contact_configuration c' ! 1 ! 0 = \<lparr>current_size = 0\<rparr>"
    "contact_configuration c' ! 1 ! 1 = \<lparr>current_size = 6\<rparr>"
    using c(2) [rule_format, of 0, THEN conjunct2, rule_format, of 0]
      c(2) [rule_format, of 0, THEN conjunct2, rule_format, of 1]
      c(2) [rule_format, of 1, THEN conjunct2, rule_format, of 0]
      c(2) [rule_format, of 1, THEN conjunct2, rule_format, of 1]
    by simp_all
  ultimately show ?thesis
    using r(1,3) c(1,3) by blast
qed

subsection \<open>Body parts and contact bodies\<close>

lemma BodyPartsToRealBodies_loop_Inr:
  "BodyPartsToRealBodies_loop cast parts acc = Inr rs \<Longrightarrow>
   \<exists>new. rs = acc @ new \<and> length new = length parts \<and>
     (\<forall>k < length parts. cast (parts ! k) (getSPHBody (parts ! k)) = Inr (new ! k))"
proof (induction parts arbitrary: acc)
  case Nil
  then show ?case by simp
next
  case (Cons p ps)
  from Cons.prems obtain q where q: "cast p (getSPHBody p) = Inr q"
    and rest: "BodyPartsToRealBodies_loop cast ps (acc @ [q]) = Inr rs"
    by (auto split: sum.splits)
  from Cons.IH [OF rest] obtain new where new: "rs = (acc @ [q]) @ new" "length new = length ps"
    "\<forall>k < length ps. cast (ps ! k) (getSPHBody (ps ! k)) = Inr (new ! k)"
    by blast
  have "\<forall>k < length (p # ps). cast ((p # ps) ! k) (getSPHBody ((p # ps) ! k)) = Inr ((q # new) ! k)"
    using q new(3) by (auto simp: nth_Cons split: nat.splits)
  with new(1,2) show ?case
    by (intro exI [of _ "q # new"]) simp
qed

lemma BodyPartsToRealBodies_loop_Inl:
  "p \<in> set parts \<Longrightarrow> cast p (getSPHBody p) = Inl e \<Longrightarrow>
   \<exists>e'. BodyPartsToRealBodies_loop cast parts acc = Inl e'"
proof (induction parts arbitrary: acc)
  case Nil
  then show ?case by simp
next
  case (Cons a ps)
  show ?case
  proof (cases "cast a (getSPHBody a)")
    case (Inl x)
    then show ?thesis by simp
  next
    case (Inr q)
    with Cons.prems have "p \<in> set ps" by auto
    from Cons.IH [OF this Cons.prems(2)] Inr show ?thesis by simp
  qed
qed

lemma resize_length: "length (resize n x xs) = n"
  by (simp add: resize_def)

lemma updateConfigurationMemories_loop_spec:
  "k \<le> n \<Longrightarrow> n \<le> length cc \<Longrightarrow>
   \<exists>cc'. BaseContactRelation_updateConfigurationMemories_loop nb0 u k n cc = Some cc'
     \<and> length cc' = length cc
     \<and> (\<forall>m < length cc. cc' ! m = (if k \<le> m \<and> m < n then resize u nb0 (cc ! m) else cc ! m))"
proof (induction nb0 u k n cc rule: BaseContactRelation_updateConfigurationMemories_loop.induct)
  case (1 nb0 u k n cc)
  show ?case
  proof (cases "k = n")
    case True
    then show ?thesis
      by (subst BaseContactRelation_updateConfigurationMemories_loop.simps) auto
  next
    case False
    with 1(2,3) have lt: "k < length cc" and le: "k + 1 \<le> n" by simp_all
    let ?cc = "cc[k := resize u nb0 (cc ! k)]"
    from "1.IH" [OF False lt le] 1(3)
    obtain cc' where r: "BaseContactRelation_updateConfigurationMemories_loop nb0 u (k + 1) n ?cc = Some cc'"
      and len: "length cc' = length cc"
      and nth: "\<forall>m < length cc. cc' ! m =
                 (if k + 1 \<le> m \<and> m < n then resize u nb0 (?cc ! m) else ?cc ! m)"
      by auto
    have "BaseContactRelation_updateConfigurationMemories_loop nb0 u k n cc = Some cc'"
      using False lt r by (subst BaseContactRelation_updateConfigurationMemories_loop.simps) simp
    moreover have "cc' ! m = (if k \<le> m \<and> m < n then resize u nb0 (cc ! m) else cc ! m)"
      if "m < length cc" for m
      using nth that le by (cases "m = k") (auto simp: nth_list_update)
    ultimately show ?thesis using len by blast
  qed
qed

lemma BaseContactRelation_ctor_spec:
  fixes nb0 :: "'n Neighborhood_scheme"
  shows "\<exists>c. BaseContactRelation_ctor nb0 particles bodies = Some c
     \<and> contact_bodies c = bodies \<and> base_particles c = particles
     \<and> length (contact_configuration c) = length bodies
     \<and> (\<forall>k < length bodies. contact_configuration c ! k = replicate (real_particles_bound particles) nb0)"
proof -
  let ?cc0 = "resize (length bodies) [] ([] :: 'n Neighborhood_scheme list list)"
  have l0: "length ?cc0 = length bodies" by (rule resize_length)
  from updateConfigurationMemories_loop_spec [of 0 "length bodies" ?cc0 nb0 "real_particles_bound particles"] l0
  obtain cc' where r: "BaseContactRelation_updateConfigurationMemories_loop nb0
        (real_particles_bound particles) 0 (length bodies) ?cc0 = Some cc'"
    and len: "length cc' = length bodies"
    and nth: "\<forall>m < length bodies. cc' ! m = resize (real_particles_bound particles) nb0 (?cc0 ! m)"
    by auto
  have "?cc0 ! m = []" if "m < length bodies" for m
    using that by (simp add: resize_def)
  with nth have nth': "\<forall>m < length bodies. cc' ! m = replicate (real_particles_bound particles) nb0"
    by (simp add: resize_def)
  show ?thesis
    using r len nth'
    by (simp add: BaseContactRelation_ctor_def BaseContactRelation_updateConfigurationMemories_def Let_def)
qed

text \<open>
  C4 as stated fails: the helper pushes one pointer for every body part and drops none.
  For a real body and another body, the real bodies among them are the one real body; the
  helper returns no list when the cast does not return, and a list of two pointers, one
  of them null, when the cast returns the null pointer.
\<close>

theorem BodyPartsToRealBodies_counterexample:
  "real_bodies_among
     [\<lparr>getSPHBody = RealBody ''water''\<rparr>, \<lparr>getSPHBody = OtherSPHBody ''observer''\<rparr>] = [''water'']
   \<and> BodyPartsToRealBodies exiting_cast
     [\<lparr>getSPHBody = RealBody ''water''\<rparr>, \<lparr>getSPHBody = OtherSPHBody ''observer''\<rparr>]
     = Inl ''Error: pointer DynamicCasting leads to nullptr!''
   \<and> BodyPartsToRealBodies null_cast
     [\<lparr>getSPHBody = RealBody ''water''\<rparr>, \<lparr>getSPHBody = OtherSPHBody ''observer''\<rparr>]
     = Inr [Some ''water'', None]"
  by (simp add: BodyPartsToRealBodies_def real_bodies_among_def List.map_filter_def)

lemma BodyPartsToRealBodies_loop_all_Inr:
  "(\<forall>p \<in> set parts. \<exists>q. cast p (getSPHBody p) = Inr q) \<Longrightarrow>
   \<exists>rs. BodyPartsToRealBodies_loop cast parts acc = Inr rs"
proof (induction parts arbitrary: acc)
  case Nil
  then show ?case by simp
next
  case (Cons a ps)
  from Cons.prems obtain q where q: "cast a (getSPHBody a) = Inr q" by auto
  from Cons.prems have "\<forall>p \<in> set ps. \<exists>q. cast p (getSPHBody p) = Inr q" by simp
  from Cons.IH [OF this, of "acc @ [q]"] q show ?case by simp
qed

text \<open>
  C4 as amended. Whatever \<^verbatim>\<open>DynamicCast\<close> does: the helper returns a list exactly when the
  cast returns for every body part, and the list then has one entry for every part, in
  order, the pointer the cast produced for that part's body, none dropped; the helper
  does not return a list exactly when the cast does not return for some part. The contact
  relation's constructor takes a list typed as real bodies and keeps it as it is.
\<close>

theorem BodyPartsToRealBodies_casts_every_part:
  "(BodyPartsToRealBodies cast parts = Inr rs \<longleftrightarrow>
      length rs = length parts
      \<and> (\<forall>k < length parts. cast (parts ! k) (getSPHBody (parts ! k)) = Inr (rs ! k)))
   \<and> ((\<exists>e. BodyPartsToRealBodies cast parts = Inl e) \<longleftrightarrow>
        (\<exists>p \<in> set parts. \<exists>e. cast p (getSPHBody p) = Inl e))
   \<and> (\<exists>c. BaseContactRelation_ctor nb0 particles bodies = Some c \<and> contact_bodies c = bodies)"
proof -
  have fwd: "length xs = length parts
      \<and> (\<forall>k < length parts. cast (parts ! k) (getSPHBody (parts ! k)) = Inr (xs ! k))"
    if "BodyPartsToRealBodies cast parts = Inr xs" for xs
    using BodyPartsToRealBodies_loop_Inr [OF that [unfolded BodyPartsToRealBodies_def]] by auto
  have all: "\<exists>xs. BodyPartsToRealBodies cast parts = Inr xs"
    if "\<forall>p \<in> set parts. \<exists>q. cast p (getSPHBody p) = Inr q"
    unfolding BodyPartsToRealBodies_def
    using that by (rule BodyPartsToRealBodies_loop_all_Inr [where cast = cast and parts = parts])
  have bwd: "BodyPartsToRealBodies cast parts = Inr rs"
    if len: "length rs = length parts"
      and nth: "\<forall>k < length parts. cast (parts ! k) (getSPHBody (parts ! k)) = Inr (rs ! k)"
  proof -
    have "\<forall>p \<in> set parts. \<exists>q. cast p (getSPHBody p) = Inr q"
      using nth by (auto simp: in_set_conv_nth)
    from all [OF this] obtain xs where xs: "BodyPartsToRealBodies cast parts = Inr xs" by blast
    from fwd [OF xs] have "length xs = length rs" and "\<forall>k < length xs. xs ! k = rs ! k"
      using len nth by auto
    then have "xs = rs" by (simp add: nth_equalityI)
    with xs show ?thesis by simp
  qed
  have fail: "\<exists>e. BodyPartsToRealBodies cast parts = Inl e"
    if "\<exists>p \<in> set parts. \<exists>e. cast p (getSPHBody p) = Inl e"
    using that unfolding BodyPartsToRealBodies_def by (blast dest: BodyPartsToRealBodies_loop_Inl)
  have fail_only: "\<exists>p \<in> set parts. \<exists>e. cast p (getSPHBody p) = Inl e"
    if "BodyPartsToRealBodies cast parts = Inl e" for e
  proof (rule ccontr)
    assume "\<not> (\<exists>p \<in> set parts. \<exists>e. cast p (getSPHBody p) = Inl e)"
    then have "\<forall>p \<in> set parts. \<exists>q. cast p (getSPHBody p) = Inr q"
      by (metis sum.exhaust)
    from all [OF this] that show False by auto
  qed
  have ctor: "\<exists>c. BaseContactRelation_ctor nb0 particles bodies = Some c \<and> contact_bodies c = bodies"
    using BaseContactRelation_ctor_spec [of nb0 particles bodies] by blast
  show ?thesis
    using fwd [of rs] bwd fail fail_only ctor by blast
qed

text \<open>
  Two real bodies are both cast; a real body followed by another body stops the helper;
  the constructor keeps its two contact bodies.
\<close>

theorem BodyPartsToRealBodies_casts_every_part_witness:
  "BodyPartsToRealBodies exiting_cast
      [\<lparr>getSPHBody = RealBody ''water''\<rparr>, \<lparr>getSPHBody = RealBody ''air''\<rparr>] = Inr [''water'', ''air'']
   \<and> (\<exists>e. BodyPartsToRealBodies exiting_cast
      [\<lparr>getSPHBody = RealBody ''water''\<rparr>, \<lparr>getSPHBody = OtherSPHBody ''observer''\<rparr>] = Inl e)
   \<and> (\<exists>c. BaseContactRelation_ctor \<lparr>current_size = 0\<rparr>
             \<lparr>total_real_particles = 1, real_particles_bound = 2\<rparr> [''wall'', ''gate''] = Some c
          \<and> contact_bodies c = [''wall'', ''gate''])"
proof -
  let ?two = "[\<lparr>getSPHBody = RealBody ''water''\<rparr>, \<lparr>getSPHBody = RealBody ''air''\<rparr>]"
  let ?mixed = "[\<lparr>getSPHBody = RealBody ''water''\<rparr>, \<lparr>getSPHBody = OtherSPHBody ''observer''\<rparr>]"
  have casts: "length [''water'', ''air''] = length ?two
      \<and> (\<forall>k < length ?two. exiting_cast (?two ! k) (getSPHBody (?two ! k)) = Inr ([''water'', ''air''] ! k))"
    by (simp add: nth_Cons split: nat.splits)
  have fail: "\<exists>p \<in> set ?mixed. \<exists>e. exiting_cast p (getSPHBody p) = Inl e"
    by simp
  show ?thesis
    using BodyPartsToRealBodies_casts_every_part
        [of exiting_cast ?two "[''water'', ''air'']" "\<lparr>current_size = 0\<rparr>"
            "\<lparr>total_real_particles = 1, real_particles_bound = 2\<rparr>" "[''wall'', ''gate'']"]
      BodyPartsToRealBodies_casts_every_part
        [of exiting_cast ?mixed "[]" "\<lparr>current_size = 0\<rparr>"
            "\<lparr>total_real_particles = 1, real_particles_bound = 2\<rparr>" "[''wall'', ''gate'']"]
      casts fail
    by blast
qed

end
